theory Spec2Isabelle
  imports Main "HOL-Library.AList"
begin

section \<open>Python values, exceptions and strings\<close>

text \<open>
  The SDK passes entities around as dictionaries of JSON-like values. A dictionary is
  an association list in insertion order; a key is looked up with \<open>map_of\<close>.
\<close>

datatype json =
    JNull
  | JBool bool
  | JInt int
  | JStr string
  | JList "json list"
  | JDict "(string \<times> json) list"

type_synonym dict = "(string \<times> json) list"

text \<open>
  Exceptions are values: the class and the text that \<open>str(e)\<close> gives. All classes
  below derive from Python's \<open>Exception\<close>. \<open>EntityError\<close> is the SDK's own class;
  \<open>BackendError\<close> stands for whatever the backend collaborator raises.
\<close>

datatype exc_class =
    EntityError
  | RuntimeError
  | ValueError
  | IndexError
  | AttributeError
  | TypeError
  | BackendError
  | UnknownRuntime

datatype exn = Exc exc_class string

fun str_exn :: "exn \<Rightarrow> string" where
  "str_exn (Exc c m) = m"

definition bind :: "exn + 'a \<Rightarrow> ('a \<Rightarrow> exn + 'b) \<Rightarrow> exn + 'b" where
  "bind m f = (case m of Inl e \<Rightarrow> Inl e | Inr x \<Rightarrow> f x)"

fun type_name :: "json \<Rightarrow> string" where
  "type_name JNull = ''NoneType''"
| "type_name (JBool b) = ''bool''"
| "type_name (JInt i) = ''int''"
| "type_name (JStr s) = ''str''"
| "type_name (JList xs) = ''list''"
| "type_name (JDict d) = ''dict''"

definition no_attribute :: "json \<Rightarrow> string \<Rightarrow> exn" where
  "no_attribute v a =
     Exc AttributeError ([CHR 0x27] @ type_name v @ [CHR 0x27] @ '' object has no attribute '' @
                         [CHR 0x27] @ a @ [CHR 0x27])"

text \<open>\<open>d.get(k)\<close>: the value, or \<open>None\<close>; only a dictionary has the method.\<close>

fun py_get :: "json \<Rightarrow> string \<Rightarrow> exn + json" where
  "py_get (JDict d) k = Inr (case map_of d k of None \<Rightarrow> JNull | Some v \<Rightarrow> v)"
| "py_get v k = Inl (no_attribute v ''get'')"

text \<open>\<open>d.get(k, default)\<close>.\<close>

fun py_get_default :: "json \<Rightarrow> string \<Rightarrow> json \<Rightarrow> exn + json" where
  "py_get_default (JDict d) k dflt = Inr (case map_of d k of None \<Rightarrow> dflt | Some v \<Rightarrow> v)"
| "py_get_default v k dflt = Inl (no_attribute v ''get'')"

text \<open>
  \<open>{**a, **b}\<close>: the items of \<open>a\<close>, each item of \<open>b\<close> then overwriting the value of
  its key in place or being appended.
\<close>

definition dict_merge :: "dict \<Rightarrow> dict \<Rightarrow> dict" where
  "dict_merge a b = fold (\<lambda>(k, v) d. AList.update k v d) b a"

text \<open>
  \<open>s.split(sep)\<close> for a separator that is not empty: the pieces between the
  occurrences of \<open>sep\<close>, found from the left without overlap. Python raises
  \<open>ValueError\<close> for an empty separator; the SDK only splits on literals, and the
  first equation is never reached.
\<close>

fun cons_first :: "char \<Rightarrow> string list \<Rightarrow> string list" where
  "cons_first c [] = [[c]]"
| "cons_first c (p # ps) = (c # p) # ps"

fun split_py :: "string \<Rightarrow> string \<Rightarrow> string list" where
  "split_py [] s = []"
| "split_py (d # ds) [] = [[]]"
| "split_py (d # ds) (c # cs) =
     (if c = d \<and> take (length ds) cs = ds
      then [] # split_py (d # ds) (drop (length ds) cs)
      else cons_first c (split_py (d # ds) cs))"

text \<open>\<open>a, b = xs\<close>: exactly two values, or \<open>ValueError\<close>.\<close>

fun unpack2 :: "string list \<Rightarrow> exn + (string \<times> string)" where
  "unpack2 [a, b] = Inr (a, b)"
| "unpack2 [] = Inl (Exc ValueError ''not enough values to unpack (expected 2, got 0)'')"
| "unpack2 [a] = Inl (Exc ValueError ''not enough values to unpack (expected 2, got 1)'')"
| "unpack2 (a # b # c # r) = Inl (Exc ValueError ''too many values to unpack (expected 2)'')"

text \<open>\<open>xs[0]\<close> and \<open>xs[1]\<close>.\<close>

fun index0 :: "string list \<Rightarrow> exn + string" where
  "index0 (a # r) = Inr a"
| "index0 xs = Inl (Exc IndexError ''list index out of range'')"

fun index1 :: "string list \<Rightarrow> exn + string" where
  "index1 (a # b # r) = Inr b"
| "index1 xs = Inl (Exc IndexError ''list index out of range'')"

section \<open>The Run entity\<close>

record RunMetadata =
  project :: string
  name :: string

text \<open>
  The spec and status objects are built from keyword mappings by builders outside the
  sources at hand; they are kept as the mappings they were built from, and an attribute
  that was not given reads as \<open>None\<close>.
\<close>

record Run =
  run_id :: string
  kind :: string
  metadata :: RunMetadata
  spec :: dict
  status :: dict
  local :: bool

record TaskString =
  function_kind :: string
  task_kind :: string
  function_name :: string
  function_id :: string
  task_id :: json

definition attr :: "dict \<Rightarrow> string \<Rightarrow> json" where
  "attr d k = (case map_of d k of None \<Rightarrow> JNull | Some v \<Rightarrow> v)"

text \<open>\<open>Run._parse_task_string\<close>, on the task string itself.\<close>

definition parse_task :: "string \<Rightarrow> json \<Rightarrow> exn + TaskString" where
  "parse_task task tid =
     bind (unpack2 (split_py ''://'' task)) (\<lambda>(kinds, func).
     bind (unpack2 (split_py ''+'' kinds)) (\<lambda>(fnc_kind, tsk_kind).
     bind (index1 (split_py ''/'' func)) (\<lambda>seg.
     bind (unpack2 (split_py '':'' seg)) (\<lambda>(fnc_name, fnc_id).
     Inr \<lparr>function_kind = fnc_kind, task_kind = tsk_kind,
          function_name = fnc_name, function_id = fnc_id, task_id = tid\<rparr>))))"

definition parse_task_string :: "Run \<Rightarrow> exn + TaskString" where
  "parse_task_string r =
     (case attr (spec r) ''task'' of
        JStr task \<Rightarrow> parse_task task (attr (spec r) ''task_id'')
      | v \<Rightarrow> Inl (no_attribute v ''split''))"

subsection \<open>Constants of the SDK\<close>

text \<open>
  Modelled from the spec: the enumerations \<open>State\<close>, \<open>TaskKinds\<close> and
  \<open>DataitemKinds\<close> and the entity-type names of \<open>sdk.utils.commons\<close> are not among the
  sources; their values are taken to be the names the specification uses.
\<close>

definition State_CREATED :: string where "State_CREATED = ''CREATED''"
definition State_PENDING :: string where "State_PENDING = ''PENDING''"
definition State_RUNNING :: string where "State_RUNNING = ''RUNNING''"
definition State_COMPLETED :: string where "State_COMPLETED = ''COMPLETED''"
definition State_ERROR :: string where "State_ERROR = ''ERROR''"

definition TaskKinds_TRANSFORM :: string where "TaskKinds_TRANSFORM = ''transform''"
definition DataitemKinds_DBT :: string where "DataitemKinds_DBT = ''dbt''"

definition RUNS :: string where "RUNS = ''runs''"
definition FUNC :: string where "FUNC = ''functions''"
definition TASK :: string where "TASK = ''tasks''"

subsection \<open>The backend\<close>

text \<open>
  Modelled from the spec: the backend collaborator (\<open>createObject\<close>, \<open>updateObject\<close>,
  \<open>readObject\<close>) is a store of objects addressed by an API path. A base path names an
  entity type and an id, a context path a project, an entity type, a name and an id.
  Reading a path that holds nothing raises; writing replaces what the path held.
\<close>

datatype api = ApiBase string json | ApiCtx string string string string

type_synonym backend = "api \<Rightarrow> json option"

definition api_base_read :: "string \<Rightarrow> json \<Rightarrow> api" where
  "api_base_read t i = ApiBase t i"

definition api_base_update :: "string \<Rightarrow> json \<Rightarrow> api" where
  "api_base_update t i = ApiBase t i"

definition api_ctx_read :: "string \<Rightarrow> string \<Rightarrow> string \<Rightarrow> string \<Rightarrow> api" where
  "api_ctx_read p t n i = ApiCtx p t n i"

definition read_object :: "backend \<Rightarrow> api \<Rightarrow> exn + json" where
  "read_object b a =
     (case b a of None \<Rightarrow> Inl (Exc BackendError ''object not found'') | Some v \<Rightarrow> Inr v)"

definition update_object :: "backend \<Rightarrow> json \<Rightarrow> api \<Rightarrow> json \<times> backend" where
  "update_object b obj a = (obj, b(a \<mapsto> obj))"

text \<open>
  \<open>create_object\<close> files the object under the id it carries and answers with the
  stored object.
\<close>

definition create_object :: "backend \<Rightarrow> json \<Rightarrow> string \<Rightarrow> (exn + json) \<times> backend" where
  "create_object b obj t =
     (case py_get obj ''id'' of
        Inl e \<Rightarrow> (Inl e, b)
      | Inr i \<Rightarrow> (Inr obj, b(ApiBase t i \<mapsto> obj)))"

subsection \<open>Dictionary form, status and saving\<close>

text \<open>
  Modelled from the spec: \<open>toDict()\<close> of the entity base class, which is not among the
  sources, gives the public attributes that the constructor sets.
\<close>

definition to_dict :: "Run \<Rightarrow> json" where
  "to_dict r =
     JDict [(''id'', JStr (run_id r)),
            (''kind'', JStr (kind r)),
            (''metadata'', JDict [(''project'', JStr (project (metadata r))),
                                  (''name'', JStr (name (metadata r)))]),
            (''spec'', JDict (spec r)),
            (''status'', JDict (status r))]"

text \<open>\<open>obj[k] = v\<close>.\<close>

fun set_item :: "json \<Rightarrow> string \<Rightarrow> json \<Rightarrow> json" where
  "set_item (JDict d) k v = JDict (AList.update k v d)"
| "set_item j k v = j"

text \<open>\<open>Run._set_status\<close>; \<open>build_status\<close> keeps the mapping it is given.\<close>

definition set_status :: "Run \<Rightarrow> json \<Rightarrow> exn + Run" where
  "set_status r st =
     (case st of
        JDict d \<Rightarrow> Inr (r\<lparr>status := d\<rparr>)
      | _ \<Rightarrow> Inl (Exc EntityError ''Status must be a dictionary.''))"

text \<open>
  A method of the Run gives its outcome (the exception raised or the value returned)
  together with the backend and the Run as the call leaves them.
\<close>

type_synonym 'a outcome = "(exn + 'a) \<times> backend \<times> Run"

definition save_obj :: "Run \<Rightarrow> json" where
  "save_obj r =
     set_item (set_item (set_item (set_item (to_dict r)
       ''project'' (JStr (project (metadata r))))
       ''task_id'' (attr (spec r) ''task_id''))
       ''task'' (attr (spec r) ''task''))
       ''local_execution'' (attr (spec r) ''local_execution'')"

text \<open>\<open>Run.save\<close>.\<close>

definition save :: "backend \<Rightarrow> Run \<Rightarrow> string option \<Rightarrow> json outcome" where
  "save b r uuid =
     (if local r then (Inl (Exc EntityError ''Use .export() for local execution.''), b, r)
      else
        (case uuid of
           None \<Rightarrow>
             (case create_object b (save_obj r) RUNS of
                (Inl e, b') \<Rightarrow> (Inl e, b', r)
              | (Inr response, b') \<Rightarrow>
                  (case py_get response ''id'' of
                     Inr (JStr i) \<Rightarrow> (Inr response, b', r\<lparr>run_id := i\<rparr>)
                   | _ \<Rightarrow> (Inr response, b', r)))
         | Some u \<Rightarrow>
             (case update_object b (save_obj r) (api_base_update RUNS (JStr u)) of
                (response, b') \<Rightarrow> (Inr response, b', r\<lparr>run_id := u\<rparr>))))"

text \<open>\<open>Run.refresh\<close>.\<close>

definition refresh :: "backend \<Rightarrow> Run \<Rightarrow> exn + json" where
  "refresh b r =
     (if local r then Inl (Exc EntityError ''Cannot refresh local run.'')
      else read_object b (api_base_read RUNS (JStr (run_id r))))"

subsection \<open>Function, task and runtime of a Run\<close>

text \<open>\<open>Run._get_function\<close> and \<open>Run._get_task\<close>.\<close>

definition get_function :: "backend \<Rightarrow> Run \<Rightarrow> exn + json" where
  "get_function b r =
     bind (parse_task_string r) (\<lambda>parsed.
       read_object b (api_ctx_read (project (metadata r)) FUNC
                        (function_name parsed) (function_id parsed)))"

definition get_task :: "backend \<Rightarrow> Run \<Rightarrow> exn + json" where
  "get_task b r =
     bind (parse_task_string r) (\<lambda>parsed. read_object b (api_base_read TASK (task_id parsed)))"

text \<open>
  A Runtime merges specs (\<open>build\<close>) and executes a run given in dictionary form
  (\<open>run\<close>).
\<close>

record Runtime =
  runtime_build :: "json \<Rightarrow> json \<Rightarrow> json \<Rightarrow> exn + json"
  runtime_run :: "json \<Rightarrow> exn + json"

text \<open>
  Modelled from the spec: \<open>build_runtime\<close>, the registry of runtimes by function kind,
  is not among the sources; resolving a kind that has no runtime fails.
\<close>

type_synonym registry = "string \<Rightarrow> Runtime option"

definition build_runtime :: "registry \<Rightarrow> string \<Rightarrow> exn + Runtime" where
  "build_runtime reg k =
     (case reg k of
        None \<Rightarrow> Inl (Exc UnknownRuntime (''No runtime for function kind '' @ k))
      | Some rt \<Rightarrow> Inr rt)"

text \<open>\<open>Run._get_runtime\<close>.\<close>

definition get_runtime :: "registry \<Rightarrow> Run \<Rightarrow> exn + Runtime" where
  "get_runtime reg r =
     bind (parse_task_string r) (\<lambda>parsed. build_runtime reg (function_kind parsed))"

subsection \<open>Build and run\<close>

text \<open>
  The call \<open>build_spec(RUNS, self.kind, ignore_validation=True, **new_spec)\<close>. Only a
  mapping can be passed as keyword arguments, and a mapping that holds the key
  \<open>ignore_validation\<close> gives the keyword twice: Python raises \<open>TypeError\<close> at the
  call, before the builder runs. Modelled from the spec: the builder itself is not among
  the sources; with \<open>ignore_validation\<close> it takes the merged mapping as the new spec.
\<close>

definition build_spec :: "json \<Rightarrow> exn + dict" where
  "build_spec new_spec =
     (case new_spec of
        JDict d \<Rightarrow>
          (if map_of d ''ignore_validation'' \<noteq> None
           then Inl (Exc TypeError (''build_spec() got multiple values for keyword argument '' @
                                   [CHR 0x27] @ ''ignore_validation'' @ [CHR 0x27]))
           else Inr d)
      | v \<Rightarrow> Inl (Exc TypeError (''argument after ** must be a mapping, not '' @ type_name v)))"

text \<open>\<open>Run.build\<close>.\<close>

definition build :: "registry \<Rightarrow> backend \<Rightarrow> Run \<Rightarrow> unit outcome" where
  "build reg b r =
     (case get_function b r of Inl e \<Rightarrow> (Inl e, b, r) | Inr fnc \<Rightarrow>
     (case get_task b r of Inl e \<Rightarrow> (Inl e, b, r) | Inr task \<Rightarrow>
     (case get_runtime reg r of Inl e \<Rightarrow> (Inl e, b, r) | Inr runtime \<Rightarrow>
     (case runtime_build runtime fnc task (to_dict r) of Inl e \<Rightarrow> (Inl e, b, r) | Inr new_spec \<Rightarrow>
     (case build_spec new_spec of Inl e \<Rightarrow> (Inl e, b, r) | Inr sp \<Rightarrow>
     (case set_status (r\<lparr>spec := sp\<rparr>) (JDict [(''state'', JStr State_PENDING)]) of
        Inl e \<Rightarrow> (Inl e, b, r\<lparr>spec := sp\<rparr>)
      | Inr r' \<Rightarrow>
     (case save b r' (Some (run_id r')) of
        (Inl e, b', r'') \<Rightarrow> (Inl e, b', r'')
      | (Inr response, b', r'') \<Rightarrow> (Inr (), b', r''))))))))"

text \<open>The status that \<open>Run.run\<close> makes of an exception.\<close>

definition error_status :: "exn \<Rightarrow> dict" where
  "error_status e = [(''state'', JStr State_ERROR), (''message'', JStr (str_exn e))]"

text \<open>\<open>Run.run\<close>: the value returned is the Run itself.\<close>

definition run :: "registry \<Rightarrow> backend \<Rightarrow> Run \<Rightarrow> Run outcome" where
  "run reg b r =
     (case get_runtime reg r of Inl e \<Rightarrow> (Inl e, b, r) | Inr runtime \<Rightarrow>
     (let st = (case runtime_run runtime (to_dict r) of
                  Inr s \<Rightarrow> s
                | Inl e \<Rightarrow> JDict (error_status e))
      in
     (case set_status r st of Inl e \<Rightarrow> (Inl e, b, r) | Inr r' \<Rightarrow>
     (case save b r' (Some (run_id r')) of
        (Inl e, b', r'') \<Rightarrow> (Inl e, b', r'')
      | (Inr response, b', r'') \<Rightarrow> (Inr r'', b', r'')))))"

definition state :: "Run \<Rightarrow> json" where
  "state r = attr (status r) ''state''"

section \<open>The DBT runtime\<close>

subsection \<open>Collaborators\<close>

record Dataitem =
  di_project :: string
  di_name :: string
  di_kind :: string
  di_id :: string

record TimingInfo =
  timing_name :: string
  started_at :: "string option"
  completed_at :: "string option"

record ResultNode =
  package_name :: string
  node_name :: string
  relation_name :: "string option"
  raw_code :: string
  compiled_code :: string

record RunResult =
  result_status :: string
  node :: ResultNode
  timing :: "TimingInfo list"

record dbtRunnerResult =
  result :: "RunResult list option"

record NewDataitem =
  nd_project :: json
  nd_name :: string
  nd_kind :: string
  nd_path :: string
  nd_uuid :: string
  nd_raw_code :: string
  nd_compiled_code :: string

type_synonym files = "(string \<times> string) list"

text \<open>
  What the runtime calls outside itself: the dataitem store (\<open>get_dataitem\<close>,
  \<open>new_dataitem\<close>, \<open>write_df\<close> of a dataitem), the identifier generator, the string
  codec, the file system (\<open>mkdir\<close>, \<open>write_text\<close> and \<open>chdir\<close>, each of which
  may raise, on a path given as text), the dbt engine run on the generated project
  files, the Postgres settings of the process environment, and \<open>str\<close> on a value that
  is not a string. A timestamp is held as the text its \<open>isoformat()\<close> gives.
\<close>

record Env =
  get_dataitem :: "json \<Rightarrow> json \<Rightarrow> exn + Dataitem"
  write_df :: "Dataitem \<Rightarrow> string \<Rightarrow> exn + unit"
  new_dataitem :: "NewDataitem \<Rightarrow> exn + Dataitem"
  get_uiid :: string
  decode_string :: "json \<Rightarrow> exn + string"
  encode_string :: "string \<Rightarrow> exn + string"
  mkdir :: "string \<Rightarrow> exn + unit"
  write_text :: "string \<Rightarrow> string \<Rightarrow> exn + unit"
  chdir :: "string \<Rightarrow> exn + unit"
  dbt_invoke :: "files \<Rightarrow> string list \<Rightarrow> exn + dbtRunnerResult"
  py_repr :: "json \<Rightarrow> string"
  POSTGRES_HOST :: json
  POSTGRES_USER :: json
  POSTGRES_PASSWORD :: json
  POSTGRES_PORT :: json
  POSTGRES_DATABASE :: json
  POSTGRES_SCHEMA :: json

definition py_str :: "Env \<Rightarrow> json \<Rightarrow> string" where
  "py_str env v = (case v of JStr s \<Rightarrow> s | _ \<Rightarrow> py_repr env v)"

definition nl :: string where "nl = [CHR 0x0A]"
definition dq :: string where "dq = [CHR 0x22]"
definition sq :: string where "sq = [CHR 0x27]"

text \<open>\<open>sep.join(xs)\<close> and \<open>s.replace(old, new)\<close> for a single character \<open>old\<close>.\<close>

fun join_py :: "string \<Rightarrow> string list \<Rightarrow> string" where
  "join_py sep [] = []"
| "join_py sep [x] = x"
| "join_py sep (x # y # r) = x @ sep @ join_py sep (y # r)"

definition replace_char :: "char \<Rightarrow> string \<Rightarrow> string \<Rightarrow> string" where
  "replace_char old new s = concat (map (\<lambda>c. if c = old then new else [c]) s)"

definition str_replace :: "json \<Rightarrow> char \<Rightarrow> string \<Rightarrow> exn + string" where
  "str_replace v old new =
     (case v of JStr s \<Rightarrow> Inr (replace_char old new s) | _ \<Rightarrow> Inl (no_attribute v ''replace''))"

subsection \<open>Templates\<close>

definition PROJECT_TEMPLATE :: "string \<Rightarrow> string \<Rightarrow> string" where
  "PROJECT_TEMPLATE a b =
     nl @ ''name: '' @ dq @ a @ dq @ nl @
     ''version: '' @ dq @ ''1.0.0'' @ dq @ nl @
     ''config-version: 2'' @ nl @
     ''profile: '' @ dq @ ''postgres'' @ dq @ nl @
     ''model-paths: ['' @ dq @ b @ dq @ '']'' @ nl @
     ''models:'' @ nl"

definition MODEL_TEMPLATE_UUID :: "string \<Rightarrow> string \<Rightarrow> string \<Rightarrow> string" where
  "MODEL_TEMPLATE_UUID a b c =
     nl @ ''models:'' @ nl @
     ''  - name: '' @ a @ nl @
     ''    latest_uuid: '' @ b @ nl @
     ''    uuids:'' @ nl @
     ''        - v: '' @ c @ nl @
     ''          config:'' @ nl @
     ''            materialized: table'' @ nl"

definition MODEL_TEMPLATE_VERSION :: "string \<Rightarrow> string \<Rightarrow> string \<Rightarrow> string" where
  "MODEL_TEMPLATE_VERSION a b c =
     nl @ ''models:'' @ nl @
     ''  - name: '' @ a @ nl @
     ''    latest_version: '' @ b @ nl @
     ''    versions:'' @ nl @
     ''        - v: '' @ c @ nl @
     ''          config:'' @ nl @
     ''            materialized: table'' @ nl"

definition PROFILE_TEMPLATE :: "Env \<Rightarrow> string" where
  "PROFILE_TEMPLATE env =
     nl @ ''postgres:'' @ nl @
     ''    outputs:'' @ nl @
     ''        dev:'' @ nl @
     ''            type: postgres'' @ nl @
     ''            host: '' @ py_str env (POSTGRES_HOST env) @ nl @
     ''            user: '' @ py_str env (POSTGRES_USER env) @ nl @
     ''            pass: '' @ py_str env (POSTGRES_PASSWORD env) @ nl @
     ''            port: '' @ py_str env (POSTGRES_PORT env) @ nl @
     ''            dbname: '' @ py_str env (POSTGRES_DATABASE env) @ nl @
     ''            schema: '' @ py_str env (POSTGRES_SCHEMA env) @ nl @
     ''    target: dev'' @ nl"

subsection \<open>Paths\<close>

text \<open>
  A path of \<open>pathlib\<close> on a POSIX system: a root (none, \<open>/\<close>, or \<open>//\<close> for exactly
  two leading slashes) and the components, without the empty ones and the single dots.
  Joining with a text that has a root of its own gives the path of that text alone.
\<close>

record Path =
  path_root :: string
  path_parts :: "string list"

definition path_root_of :: "string \<Rightarrow> string" where
  "path_root_of s =
     (if take 2 s = ''//'' \<and> take 3 s \<noteq> ''///'' then ''//''
      else if take 1 s = ''/'' then ''/''
      else [])"

definition path_parts_of :: "string \<Rightarrow> string list" where
  "path_parts_of s = filter (\<lambda>c. c \<noteq> [] \<and> c \<noteq> ''.'') (split_py ''/'' s)"

definition Path_of :: "string \<Rightarrow> Path" where
  "Path_of s = \<lparr>path_root = path_root_of s, path_parts = path_parts_of s\<rparr>"

text \<open>\<open>p / s\<close>, \<open>str(p)\<close> and \<open>p.name\<close>.\<close>

definition path_div :: "Path \<Rightarrow> string \<Rightarrow> Path" where
  "path_div p s =
     (if path_root_of s \<noteq> [] then Path_of s
      else \<lparr>path_root = path_root p, path_parts = path_parts p @ path_parts_of s\<rparr>)"

definition path_str :: "Path \<Rightarrow> string" where
  "path_str p =
     (if path_root p = [] \<and> path_parts p = [] then ''.''
      else path_root p @ join_py ''/'' (path_parts p))"

definition path_name :: "Path \<Rightarrow> string" where
  "path_name p = (if path_parts p = [] then [] else last (path_parts p))"

definition root_dir :: Path where "root_dir = Path_of ''dbt_run''"
definition model_dir :: Path where "model_dir = path_div root_dir ''models''"

subsection \<open>Build and dispatch\<close>

text \<open>\<open>**m\<close> inside a dictionary display.\<close>

definition as_mapping :: "json \<Rightarrow> exn + dict" where
  "as_mapping v =
     (case v of
        JDict d \<Rightarrow> Inr d
      | _ \<Rightarrow> Inl (Exc TypeError (sq @ type_name v @ sq @ '' object is not a mapping'')))"

text \<open>\<open>RuntimeDBT.build\<close>.\<close>

definition DBT_build :: "json \<Rightarrow> json \<Rightarrow> json \<Rightarrow> exn + json" where
  "DBT_build fnc task rn =
     bind (py_get fnc ''spec'') (\<lambda>fs. bind (as_mapping fs) (\<lambda>fd.
     bind (py_get task ''spec'') (\<lambda>ts. bind (as_mapping ts) (\<lambda>td.
     bind (py_get rn ''spec'') (\<lambda>rs. bind (as_mapping rs) (\<lambda>rd.
     Inr (JDict (dict_merge (dict_merge fd td) rd))))))))"

definition py_split :: "json \<Rightarrow> string \<Rightarrow> exn + string list" where
  "py_split v sep =
     (case v of JStr s \<Rightarrow> Inr (split_py sep s) | _ \<Rightarrow> Inl (no_attribute v ''split''))"

subsection \<open>The transform task\<close>

text \<open>\<open>materialize_inputs\<close>, \<open>parse_inputs\<close> and \<open>parse_outputs\<close>.\<close>

fun materialize_inputs :: "Env \<Rightarrow> json list \<Rightarrow> json \<Rightarrow> exn + unit" where
  "materialize_inputs env [] proj = Inr ()"
| "materialize_inputs env (nm # rest) proj =
     (case get_dataitem env proj nm of
        Inl e \<Rightarrow> Inl (Exc RuntimeError (''Dataitem '' @ py_str env nm @
                                        '' not found in project '' @ py_str env proj))
      | Inr di \<Rightarrow>
          bind (write_df env di
                  (''sql://postgres/'' @ py_str env (POSTGRES_DATABASE env) @ ''/'' @
                   py_str env (POSTGRES_SCHEMA env) @ ''/'' @ py_str env nm @ ''_v'' @ di_id di))
            (\<lambda>u. materialize_inputs env rest proj))"

definition parse_inputs :: "Env \<Rightarrow> json \<Rightarrow> json \<Rightarrow> exn + json list" where
  "parse_inputs env inputs proj =
     (case inputs of
        JList xs \<Rightarrow> bind (materialize_inputs env xs proj) (\<lambda>u. Inr xs)
      | _ \<Rightarrow> Inl (Exc RuntimeError ''Inputs must be a list of dataitems''))"

definition parse_outputs :: "Env \<Rightarrow> json \<Rightarrow> exn + string" where
  "parse_outputs env outputs =
     (case outputs of
        JList [] \<Rightarrow> Inl (Exc IndexError ''list index out of range'')
      | JList (x # xs) \<Rightarrow> Inr (py_str env x)
      | _ \<Rightarrow> Inl (Exc RuntimeError ''Outputs must be a list of dataitems''))"

text \<open>
  \<open>p.write_text(content)\<close>: the write may raise; a write that was made is recorded
  as path and content.
\<close>

definition write_file :: "Env \<Rightarrow> Path \<Rightarrow> string \<Rightarrow> exn + files" where
  "write_file env p content =
     bind (write_text env (path_str p) content) (\<lambda>u. Inr [(path_str p, content)])"

text \<open>
  The method that prepares the dbt project (named \<open>dbt_setup\<close> here) makes the model
  directory and writes the project files; the files written are returned in the order of
  writing.
\<close>

definition generate_dbt_profile_yml :: "Env \<Rightarrow> exn + files" where
  "generate_dbt_profile_yml env =
     write_file env (path_div root_dir ''profiles.yml'') (PROFILE_TEMPLATE env)"

definition generate_dbt_project_yml :: "Env \<Rightarrow> json \<Rightarrow> exn + files" where
  "generate_dbt_project_yml env proj =
     bind (str_replace proj (CHR ''-'') ''_'') (\<lambda>p.
       write_file env (path_div root_dir ''dbt_project.yml'')
         (PROJECT_TEMPLATE p (path_name model_dir)))"

definition generate_outputs_conf :: "Env \<Rightarrow> json \<Rightarrow> string \<Rightarrow> string \<Rightarrow> exn + files" where
  "generate_outputs_conf env sql output uuid =
     bind (decode_string env sql) (\<lambda>sql'.
     bind (write_file env (path_div model_dir (output @ ''.sql'')) sql') (\<lambda>f1.
     bind (write_file env (path_div model_dir (output @ ''.yml''))
             (MODEL_TEMPLATE_VERSION output uuid uuid)) (\<lambda>f2.
       Inr (f1 @ f2))))"

fun generate_inputs_conf :: "Env \<Rightarrow> json list \<Rightarrow> json \<Rightarrow> exn + files" where
  "generate_inputs_conf env [] proj = Inr []"
| "generate_inputs_conf env (nm # rest) proj =
     bind (get_dataitem env proj nm) (\<lambda>response.
     bind (write_file env (path_div model_dir (py_str env nm @ ''.sql''))
             (MODEL_TEMPLATE_UUID (py_str env nm) (di_id response) (di_id response))) (\<lambda>f1.
     bind (write_file env
             (path_div model_dir (py_str env nm @ ''_v'' @ di_id response @ ''.sql''))
             (''SELECT * FROM '' @ dq @ py_str env nm @ ''_v'' @ di_id response @ dq)) (\<lambda>f2.
     bind (generate_inputs_conf env rest proj) (\<lambda>fs.
       Inr (f1 @ f2 @ fs)))))"

definition dbt_setup :: "Env \<Rightarrow> json list \<Rightarrow> string \<Rightarrow> string \<Rightarrow> json \<Rightarrow> json \<Rightarrow> exn + files" where
  "dbt_setup env inputs output uuid proj sql =
     bind (mkdir env (path_str model_dir)) (\<lambda>u.
     bind (generate_dbt_profile_yml env) (\<lambda>f1.
     bind (generate_dbt_project_yml env proj) (\<lambda>f2.
     bind (generate_outputs_conf env sql output uuid) (\<lambda>f3.
     bind (generate_inputs_conf env inputs proj) (\<lambda>f4.
       Inr (f1 @ f2 @ f3 @ f4))))))"

text \<open>
  \<open>execute\<close>: enter the project directory, clean, run the selected model, and go
  back up.
\<close>

definition execute :: "Env \<Rightarrow> files \<Rightarrow> string \<Rightarrow> exn + dbtRunnerResult" where
  "execute env fs output =
     bind (chdir env (path_str root_dir)) (\<lambda>u.
     bind (dbt_invoke env fs [''clean'']) (\<lambda>c.
     bind (dbt_invoke env fs [''run'', ''--select'', output]) (\<lambda>res.
     bind (chdir env ''..'') (\<lambda>v. Inr res))))"

record ParsedResults =
  pr_name :: string
  pr_path :: string
  pr_raw_code :: string
  pr_compiled_code :: string
  pr_timings :: dict

text \<open>\<open>validate_results\<close>.\<close>

definition validate_results :: "dbtRunnerResult \<Rightarrow> string \<Rightarrow> json \<Rightarrow> exn + RunResult" where
  "validate_results run_result output proj =
     (case result run_result of
        None \<Rightarrow> Inl (Exc TypeError (sq @ ''NoneType'' @ sq @ '' object is not subscriptable''))
      | Some [] \<Rightarrow> Inl (Exc RuntimeError ''No results found.'')
      | Some (x # xs) \<Rightarrow>
          (let res = last (x # xs) in
           if result_status res \<noteq> ''success''
           then Inl (Exc RuntimeError ''Something got wrong during function execution.'')
           else bind (str_replace proj (CHR ''-'') ''_'') (\<lambda>p.
             if package_name (node res) \<noteq> p then Inl (Exc RuntimeError ''Wrong project name.'')
             else if node_name (node res) \<noteq> output then Inl (Exc RuntimeError ''Wrong output name.'')
             else Inr res)))"

text \<open>\<open>get_path\<close>, \<open>get_raw_code\<close>, \<open>get_compiled_code\<close> and \<open>get_timings\<close>.\<close>

definition get_path :: "RunResult \<Rightarrow> exn + string" where
  "get_path res =
     (case relation_name (node res) of
        None \<Rightarrow> Inl (no_attribute JNull ''replace'')
      | Some rel \<Rightarrow>
          Inr (''sql://postgres/'' @ join_py ''/'' (split_py ''.'' (replace_char (CHR 0x22) [] rel))))"

definition get_raw_code :: "Env \<Rightarrow> RunResult \<Rightarrow> exn + string" where
  "get_raw_code env res = encode_string env (raw_code (node res))"

definition get_compiled_code :: "Env \<Rightarrow> RunResult \<Rightarrow> exn + string" where
  "get_compiled_code env res = encode_string env (compiled_code (node res))"

definition timing_step ::
  "TimingInfo \<Rightarrow> TimingInfo option \<times> TimingInfo option \<Rightarrow> TimingInfo option \<times> TimingInfo option"
where
  "timing_step entry ce =
     (if timing_name entry = ''compile'' then (Some entry, snd ce)
      else if timing_name entry = ''execute'' then (fst ce, Some entry)
      else ce)"

definition no_active_exception :: exn where
  "no_active_exception = Exc RuntimeError ''No active exception to reraise''"

definition get_timings :: "RunResult \<Rightarrow> exn + dict" where
  "get_timings res =
     (case fold timing_step (timing res) (None, None) of
        (Some compile_timing, Some execute_timing) \<Rightarrow>
          (case (started_at execute_timing, completed_at execute_timing) of
             (Some es, Some ec) \<Rightarrow>
               (case (started_at compile_timing, completed_at compile_timing) of
                  (Some cs, Some cc) \<Rightarrow>
                    Inr [(''timing'',
                          JDict [(''compile'', JDict [(''started_at'', JStr cs),
                                                      (''completed_at'', JStr cc)]),
                                 (''execute'', JDict [(''started_at'', JStr es),
                                                      (''completed_at'', JStr ec)])])]
                | _ \<Rightarrow> Inl no_active_exception)
           | _ \<Rightarrow> Inl no_active_exception)
      | _ \<Rightarrow> Inl no_active_exception)"

text \<open>\<open>parse_results\<close>: whatever the extraction raises becomes one \<open>RuntimeError\<close>.\<close>

definition parse_results :: "Env \<Rightarrow> dbtRunnerResult \<Rightarrow> string \<Rightarrow> json \<Rightarrow> exn + ParsedResults" where
  "parse_results env run_result output proj =
     bind (validate_results run_result output proj) (\<lambda>res.
       (case bind (get_path res) (\<lambda>path.
             bind (get_raw_code env res) (\<lambda>rc.
             bind (get_compiled_code env res) (\<lambda>cc.
             bind (get_timings res) (\<lambda>timings.
               Inr \<lparr>pr_name = node_name (node res), pr_path = path, pr_raw_code = rc,
                    pr_compiled_code = cc, pr_timings = timings\<rparr>)))) of
          Inl e \<Rightarrow> Inl (Exc RuntimeError ''Something got wrong during results parsing.'')
        | Inr parsed \<Rightarrow> Inr parsed))"

text \<open>\<open>create_dataitem\<close> and \<open>get_dataitem_info\<close>.\<close>

definition create_dataitem :: "Env \<Rightarrow> ParsedResults \<Rightarrow> json \<Rightarrow> string \<Rightarrow> exn + Dataitem" where
  "create_dataitem env parsed proj uuid =
     (case new_dataitem env
             \<lparr>nd_project = proj, nd_name = pr_name parsed, nd_kind = DataitemKinds_DBT,
              nd_path = pr_path parsed, nd_uuid = uuid, nd_raw_code = pr_raw_code parsed,
              nd_compiled_code = pr_compiled_code parsed\<rparr> of
        Inl e \<Rightarrow> Inl (Exc RuntimeError ''Something got wrong during dataitem creation.'')
      | Inr di \<Rightarrow> Inr di)"

definition get_dataitem_info :: "string \<Rightarrow> Dataitem \<Rightarrow> dict" where
  "get_dataitem_info output dataitem =
     [(''dataitems'',
       JList [JDict [(''key'', JStr output),
                     (''kind'', JStr (di_kind dataitem)),
                     (''id'', JStr (''store://'' @ di_project dataitem @ ''/dataitems/'' @
                                    di_kind dataitem @ ''/'' @ di_name dataitem @ '':'' @
                                    di_id dataitem))]])]"

text \<open>\<open>RuntimeDBT.transform\<close>.\<close>

definition transform :: "Env \<Rightarrow> json \<Rightarrow> exn + json" where
  "transform env rn =
     bind (py_get rn ''project'') (\<lambda>proj.
     bind (py_get rn ''spec'') (\<lambda>sp.
     bind (py_get_default sp ''inputs'' (JDict [])) (\<lambda>i0.
     bind (py_get_default i0 ''dataitems'' (JList [])) (\<lambda>i1.
     bind (parse_inputs env i1 proj) (\<lambda>inputs.
     bind (py_get_default sp ''outputs'' (JDict [])) (\<lambda>o0.
     bind (py_get_default o0 ''dataitems'' (JList [])) (\<lambda>o1.
     bind (parse_outputs env o1) (\<lambda>output.
     bind (py_get sp ''sql'') (\<lambda>sql.
     bind (dbt_setup env inputs output (get_uiid env) proj sql) (\<lambda>fs.
     bind (execute env fs output) (\<lambda>execution_results.
     bind (parse_results env execution_results output proj) (\<lambda>parsed_result.
     bind (create_dataitem env parsed_result proj (get_uiid env)) (\<lambda>dataitem.
       Inr (JDict (dict_merge (dict_merge (get_dataitem_info output dataitem)
                                          (pr_timings parsed_result))
                              [(''state'', JStr State_COMPLETED)])))))))))))))))"

text \<open>\<open>RuntimeDBT.run\<close> and \<open>RuntimeDBT.get_allowed_tasks\<close>.\<close>

definition DBT_run :: "Env \<Rightarrow> json \<Rightarrow> exn + json" where
  "DBT_run env rn =
     bind (py_get rn ''status'') (\<lambda>st.
     bind (py_get st ''state'') (\<lambda>s.
       if s \<noteq> JStr State_PENDING
       then Inl (Exc EntityError ''Run is not in pending state. Build it again.'')
       else
         bind (py_get rn ''spec'') (\<lambda>sp.
         bind (py_get sp ''task'') (\<lambda>t.
         bind (py_split t '':'') (\<lambda>ps.
         bind (index0 ps) (\<lambda>kinds.
         bind (index1 (split_py ''+'' kinds)) (\<lambda>action.
           if action = TaskKinds_TRANSFORM then transform env rn
           else Inl (Exc EntityError (''Task '' @ action @ '' not allowed for DBT runtime'')))))))))"

definition tasks :: "string list" where
  "tasks = [TaskKinds_TRANSFORM]"

definition get_allowed_tasks :: "string list" where
  "get_allowed_tasks = tasks"

definition RuntimeDBT :: "Env \<Rightarrow> Runtime" where
  "RuntimeDBT env = \<lparr>runtime_build = DBT_build, runtime_run = DBT_run env\<rparr>"

section \<open>Artifacts and dataitems of a Run\<close>

text \<open>Iterating over a value, as a \<open>for\<close> clause does.\<close>

definition py_iter :: "json \<Rightarrow> exn + json list" where
  "py_iter v =
     (case v of
        JList xs \<Rightarrow> Inr xs
      | JStr s \<Rightarrow> Inr (map (\<lambda>c. JStr [c]) s)
      | JDict d \<Rightarrow> Inr (map (\<lambda>kv. JStr (fst kv)) d)
      | _ \<Rightarrow> Inl (Exc TypeError (sq @ type_name v @ sq @ '' object is not iterable'')))"

text \<open>
  \<open>next((r.get("id") for r in result if r.get("key") == output_key), None)\<close>: the id
  of the first entry with the key, \<open>None\<close> when no entry has it.
\<close>

fun first_id :: "json list \<Rightarrow> string \<Rightarrow> exn + json" where
  "first_id [] k = Inr JNull"
| "first_id (r # rs) k =
     bind (py_get r ''key'') (\<lambda>v. if v = JStr k then py_get r ''id'' else first_id rs k)"

text \<open>\<open>[lookup(r.get("id")) for r in result]\<close>.\<close>

fun resolve_all :: "(json \<Rightarrow> exn + 'e) \<Rightarrow> json list \<Rightarrow> exn + 'e list" where
  "resolve_all lookup [] = Inr []"
| "resolve_all lookup (r # rs) =
     bind (py_get r ''id'') (\<lambda>i.
     bind (lookup i) (\<lambda>x.
     bind (resolve_all lookup rs) (\<lambda>xs. Inr (x # xs))))"

datatype 'e found = One 'e | Many "'e list"

text \<open>
  The body shared by \<open>Run.get_artifacts\<close> and \<open>Run.get_dataitem\<close>, which differ in the
  status field read, the lookup used and the noun of the message.
\<close>

definition get_outputs ::
  "string \<Rightarrow> string \<Rightarrow> (json \<Rightarrow> exn + 'e) \<Rightarrow> backend \<Rightarrow> Run \<Rightarrow> string option \<Rightarrow> exn + 'e found"
where
  "get_outputs field noun lookup b r output_key =
     bind (refresh b r) (\<lambda>resp.
     bind (py_get_default resp ''status'' (JDict [])) (\<lambda>st.
     bind (py_get st field) (\<lambda>res.
       if res = JNull
       then Inl (Exc EntityError ''Run has no result (maybe try when it finishes).'')
       else
         (case output_key of
            Some k \<Rightarrow>
              bind (py_iter res) (\<lambda>entries.
              bind (first_id entries k) (\<lambda>key.
                if key = JNull
                then Inl (Exc EntityError (''No '' @ noun @ '' found with key '' @ sq @ k @ sq @ ''.''))
                else bind (lookup key) (\<lambda>x. Inr (One x))))
          | None \<Rightarrow>
              bind (py_iter res) (\<lambda>entries.
              bind (resolve_all lookup entries) (\<lambda>xs. Inr (Many xs)))))))"

definition Run_get_artifacts ::
  "(json \<Rightarrow> exn + 'e) \<Rightarrow> backend \<Rightarrow> Run \<Rightarrow> string option \<Rightarrow> exn + 'e found" where
  "Run_get_artifacts get_artifact_from_key = get_outputs ''artifacts'' ''artifact'' get_artifact_from_key"

definition Run_get_dataitem ::
  "(json \<Rightarrow> exn + 'e) \<Rightarrow> backend \<Rightarrow> Run \<Rightarrow> string option \<Rightarrow> exn + 'e found" where
  "Run_get_dataitem get_dataitem_from_key = get_outputs ''dataitems'' ''dataitem'' get_dataitem_from_key"

section \<open>The task-string format of the specification\<close>

text \<open>\<open>sep in s\<close>.\<close>

fun str_contains :: "string \<Rightarrow> string \<Rightarrow> bool" where
  "str_contains sep [] = (sep = [])"
| "str_contains sep (c # cs) = (take (length sep) (c # cs) = sep \<or> str_contains sep cs)"

text \<open>
  Modelled from the spec: the repository has no encoder of task strings; this one
  writes the persisted format
  \<open><functionKind>+<taskKind>://<path>/<functionName>:<functionId>\<close>.
\<close>

definition encode_task :: "string \<Rightarrow> string \<Rightarrow> string \<Rightarrow> string \<Rightarrow> string \<Rightarrow> string" where
  "encode_task k1 k2 p n i = k1 @ ''+'' @ k2 @ ''://'' @ p @ ''/'' @ n @ '':'' @ i"

text \<open>
  The format in the words of the specification, for comparison with the parser: two
  kind tokens joined by \<open>+\<close> before \<open>://\<close>, and exactly one name/id pair separated
  by \<open>:\<close> after the last \<open>/\<close>.
\<close>

definition spec_task_format :: "string \<Rightarrow> bool" where
  "spec_task_format s \<longleftrightarrow>
     (\<exists>k1 k2 p n i. s = encode_task k1 k2 p n i \<and>
        CHR ''+'' \<notin> set k1 \<and> CHR ''+'' \<notin> set k2 \<and>
        CHR ''/'' \<notin> set n \<and> CHR ''/'' \<notin> set i \<and>
        CHR '':'' \<notin> set n \<and> CHR '':'' \<notin> set i)"

text \<open>
  The strings that can be parsed at all, as the lemmas below show: the format, its tokens
  free of the separators that end them, followed by nothing or by further segments.
\<close>

definition accepted_form :: "string \<Rightarrow> bool" where
  "accepted_form s \<longleftrightarrow>
     (\<exists>k1 k2 p n i rest. s = encode_task k1 k2 p n i @ rest \<and>
        (rest = [] \<or> (\<exists>r. rest = CHR ''/'' # r)) \<and>
        CHR ''+'' \<notin> set k1 \<and> CHR ''+'' \<notin> set k2 \<and>
        CHR ''/'' \<notin> set p \<and> CHR ''/'' \<notin> set n \<and> CHR ''/'' \<notin> set i \<and>
        CHR '':'' \<notin> set n \<and> CHR '':'' \<notin> set i)"

section \<open>A sample project\<close>

text \<open>
  A run of the function \<open>myfn\<close> of project \<open>ns\<close>, its function and task in the
  backend, and collaborators of the DBT runtime under which the engine succeeds.
\<close>

definition sample_task :: string where
  "sample_task = ''dbt+transform://ns/myfn:f1''"

definition sample_run :: Run where
  "sample_run =
     \<lparr>run_id = ''r1'', kind = ''run'',
      metadata = \<lparr>project = ''ns'', name = ''r1''\<rparr>,
      spec = [(''task'', JStr sample_task), (''task_id'', JStr ''t1''),
              (''inputs'', JDict [(''dataitems'', JList [JStr ''t1''])]),
              (''outputs'', JDict [(''dataitems'', JList [JStr ''t2''])])],
      status = [],
      local = False\<rparr>"

definition sample_function_spec :: dict where
  "sample_function_spec = [(''sql'', JStr ''c2VsZWN0''), (''outputs'', JNull)]"

definition sample_task_spec :: dict where
  "sample_task_spec = [(''sql'', JStr ''b3RoZXI='')]"

definition sample_function :: json where
  "sample_function = JDict [(''spec'', JDict sample_function_spec)]"

definition sample_task_obj :: json where
  "sample_task_obj = JDict [(''spec'', JDict sample_task_spec)]"

definition sample_backend :: backend where
  "sample_backend =
     [ApiCtx ''ns'' FUNC ''myfn'' ''f1'' \<mapsto> sample_function,
      ApiBase TASK (JStr ''t1'') \<mapsto> sample_task_obj]"

definition sample_result :: RunResult where
  "sample_result =
     \<lparr>result_status = ''success'',
      node = \<lparr>package_name = ''ns'', node_name = ''t2'',
              relation_name = Some ''db.public.t2_v1'',
              raw_code = ''select'', compiled_code = ''select''\<rparr>,
      timing = [\<lparr>timing_name = ''compile'', started_at = Some ''10:00'',
                 completed_at = Some ''10:01''\<rparr>,
                \<lparr>timing_name = ''execute'', started_at = Some ''10:01'',
                 completed_at = Some ''10:02''\<rparr>]\<rparr>"

definition sample_env :: Env where
  "sample_env =
     \<lparr>get_dataitem = (\<lambda>p n. Inr \<lparr>di_project = ''ns'', di_name = ''t1'',
                                    di_kind = ''dataitem'', di_id = ''d1''\<rparr>),
      write_df = (\<lambda>di path. Inr ()),
      new_dataitem = (\<lambda>a. Inr \<lparr>di_project = ''ns'', di_name = nd_name a,
                                 di_kind = nd_kind a, di_id = nd_uuid a\<rparr>),
      get_uiid = ''u1'',
      decode_string = (\<lambda>v. Inr ''select 1''),
      encode_string = (\<lambda>s. Inr s),
      mkdir = (\<lambda>path. Inr ()),
      write_text = (\<lambda>path content. Inr ()),
      chdir = (\<lambda>path. Inr ()),
      dbt_invoke = (\<lambda>fs args. Inr \<lparr>result = Some [sample_result]\<rparr>),
      py_repr = (\<lambda>v. ''None''),
      POSTGRES_HOST = JStr ''localhost'',
      POSTGRES_USER = JStr ''user'',
      POSTGRES_PASSWORD = JStr ''pass'',
      POSTGRES_PORT = JStr ''5432'',
      POSTGRES_DATABASE = JStr ''db'',
      POSTGRES_SCHEMA = JStr ''public''\<rparr>"

definition sample_registry :: registry where
  "sample_registry = [''dbt'' \<mapsto> RuntimeDBT sample_env]"

definition sample_built :: "unit outcome" where
  "sample_built = build sample_registry sample_backend sample_run"

text \<open>A runtime whose \<open>run\<close> raises whatever it is given to raise.\<close>

definition failing_runtime :: "exn \<Rightarrow> Runtime" where
  "failing_runtime e = \<lparr>runtime_build = DBT_build, runtime_run = (\<lambda>rn. Inl e)\<rparr>"

text \<open>A run in dictionary form as the DBT runtime reads it, the status that a transform
  of it returns, a run of a task kind the runtime does not know, and a backend that holds
  a finished run with two artifacts.\<close>

definition sample_run_dict :: json where
  "sample_run_dict =
     JDict [(''project'', JStr ''ns''),
            (''spec'', JDict [(''task'', JStr sample_task), (''sql'', JStr ''c2VsZWN0''),
                              (''inputs'', JDict [(''dataitems'', JList [JStr ''t1''])]),
                              (''outputs'', JDict [(''dataitems'', JList [JStr ''t2''])])]),
            (''status'', JDict [(''state'', JStr State_PENDING)])]"

definition sample_created_dict :: json where
  "sample_created_dict =
     JDict [(''project'', JStr ''ns''),
            (''spec'', JDict [(''task'', JStr sample_task), (''sql'', JStr ''c2VsZWN0''),
                              (''inputs'', JDict [(''dataitems'', JList [JStr ''t1''])]),
                              (''outputs'', JDict [(''dataitems'', JList [JStr ''t2''])])]),
            (''status'', JDict [(''state'', JStr State_CREATED)])]"

definition sample_status :: json where
  "sample_status =
     JDict [(''dataitems'',
             JList [JDict [(''key'', JStr ''t2''), (''kind'', JStr ''dbt''),
                           (''id'', JStr ''store://ns/dataitems/dbt/t2:u1'')]]),
            (''timing'',
             JDict [(''compile'', JDict [(''started_at'', JStr ''10:00''),
                                         (''completed_at'', JStr ''10:01'')]),
                    (''execute'', JDict [(''started_at'', JStr ''10:01''),
                                         (''completed_at'', JStr ''10:02'')])]),
            (''state'', JStr ''COMPLETED'')]"

definition sample_validate_dict :: json where
  "sample_validate_dict =
     JDict [(''project'', JStr ''ns''),
            (''spec'', JDict [(''task'', JStr (''dbt'' @ ''+'' @ ''validate'' @ '':'' @ ''//ns/myfn:f1''))]),
            (''status'', JDict [(''state'', JStr State_PENDING)])]"

definition sample_entries :: "json list" where
  "sample_entries = [JDict [(''key'', JStr ''log''), (''id'', JStr ''a0'')],
                     JDict [(''key'', JStr ''out''), (''id'', JStr ''a1'')]]"

definition sample_results_backend :: backend where
  "sample_results_backend =
     [ApiBase RUNS (JStr ''r1'') \<mapsto>
        JDict [(''id'', JStr ''r1''),
               (''status'', JDict [(''state'', JStr State_COMPLETED),
                                   (''artifacts'', JList sample_entries)])]]"

text \<open>
  A result list whose first entry with the key \<open>out\<close> carries no id, and a backend
  that holds a finished run with it.
\<close>

definition sample_shadowed_entries :: "json list" where
  "sample_shadowed_entries = [JDict [(''key'', JStr ''out'')],
                              JDict [(''key'', JStr ''out''), (''id'', JStr ''a1'')]]"

definition sample_shadowed_backend :: backend where
  "sample_shadowed_backend =
     [ApiBase RUNS (JStr ''r1'') \<mapsto>
        JDict [(''id'', JStr ''r1''),
               (''status'', JDict [(''state'', JStr State_COMPLETED),
                                   (''artifacts'', JList sample_shadowed_entries)])]]"

text \<open>
  A function whose spec holds the key \<open>ignore_validation\<close>, and the sample backend
  with this function in place of the sample one.
\<close>

definition sample_flag_function :: json where
  "sample_flag_function = JDict [(''spec'', JDict [(''ignore_validation'', JBool False)])]"

definition sample_flag_backend :: backend where
  "sample_flag_backend =
     [ApiCtx ''ns'' FUNC ''myfn'' ''f1'' \<mapsto> sample_flag_function,
      ApiBase TASK (JStr ''t1'') \<mapsto> sample_task_obj]"

text \<open>The id that an entry of a result list carries.\<close>

definition entry_id :: "json \<Rightarrow> json" where
  "entry_id e = (case py_get e ''id'' of Inr i \<Rightarrow> i | Inl x \<Rightarrow> JNull)"

definition boom_registry :: "exn \<Rightarrow> registry" where
  "boom_registry e = [''dbt'' \<mapsto> failing_runtime e]"

section \<open>Lemmas on sequencing and splitting\<close>

lemma bind_Inr_iff: "bind m f = Inr y \<longleftrightarrow> (\<exists>x. m = Inr x \<and> f x = Inr y)"
  by (cases m) (simp_all add: bind_def)

lemma bind_Inl [simp]: "bind (Inl e) f = Inl e"
  by (simp add: bind_def)

lemma bind_Inr [simp]: "bind (Inr x) f = f x"
  by (simp add: bind_def)

lemma split_py_not_Nil: "split_py (d # ds) s \<noteq> []"
  by (induction s) (auto elim: cons_first.elims)

lemma cons_first_set: "\<Union>(set ` set (cons_first c ps)) \<subseteq> insert c (\<Union>(set ` set ps))"
  by (cases ps) auto

lemma split_py_chars: "p \<in> set (split_py sep s) \<Longrightarrow> set p \<subseteq> set s"
proof (induction sep s arbitrary: p rule: split_py.induct)
  case (1 s)
  then show ?case by simp
next
  case (2 d ds)
  then show ?case by simp
next
  case (3 d ds c cs)
  show ?case
  proof (cases "c = d \<and> take (length ds) cs = ds")
    case True
    with 3 have "p = [] \<or> p \<in> set (split_py (d # ds) (drop (length ds) cs))" by auto
    then show ?thesis
    proof
      assume "p = []" then show ?thesis by simp
    next
      assume "p \<in> set (split_py (d # ds) (drop (length ds) cs))"
      with 3(1) True have "set p \<subseteq> set (drop (length ds) cs)" by blast
      then show ?thesis using set_drop_subset[of "length ds" cs] by auto
    qed
  next
    case False
    with 3(3) have pin: "p \<in> set (cons_first c (split_py (d # ds) cs))" by simp
    have "\<Union>(set ` set (split_py (d # ds) cs)) \<subseteq> set cs"
      using 3(2)[OF False] by blast
    with cons_first_set[of c "split_py (d # ds) cs"] pin show ?thesis by auto
  qed
qed

lemma split_py_absent: "\<not> str_contains (d # ds) s \<Longrightarrow> split_py (d # ds) s = [s]"
  by (induction s) auto

lemma split_py_first:
  "d \<notin> set a \<Longrightarrow> split_py (d # ds) (a @ (d # ds) @ b) = a # split_py (d # ds) b"
  by (induction a) auto

lemma split_py_char_absent: "d \<notin> set s \<Longrightarrow> split_py [d] s = [s]"
  by (induction s) auto

lemma str_contains_char: "str_contains (d # ds) s \<Longrightarrow> d \<in> set s"
  by (induction s) auto

lemma contains_scheme_slashes:
  "str_contains ''://'' s \<Longrightarrow> 2 \<le> length (filter (\<lambda>c. c = CHR ''/'') s)"
proof (induction s)
  case Nil
  then show ?case by simp
next
  case (Cons c cs)
  from Cons.prems
  have "take (length ''://'') (c # cs) = ''://'' \<or> str_contains ''://'' cs"
    by (simp only: str_contains.simps)
  then show ?case
  proof
    assume "take (length ''://'') (c # cs) = ''://''"
    then obtain r where "c # cs = ''://'' @ r"
      by (metis append_take_drop_id)
    then show ?thesis by simp
  next
    assume "str_contains ''://'' cs"
    with Cons.IH show ?thesis by simp
  qed
qed

lemma unpack2_cases:
  "(\<exists>a b. xs = [a, b]) \<or> (\<exists>m. unpack2 xs = Inl (Exc ValueError m))"
  by (cases xs rule: unpack2.cases) auto

lemma parse_task_no_scheme:
  assumes "\<not> str_contains ''://'' s"
  shows "\<exists>m. parse_task s tid = Inl (Exc ValueError m)"
  using split_py_absent[OF assms] by (simp add: parse_task_def)

lemma parse_task_no_plus:
  assumes "CHR ''+'' \<notin> set s"
  shows "\<exists>m. parse_task s tid = Inl (Exc ValueError m)"
proof -
  from unpack2_cases[of "split_py ''://'' s"] show ?thesis
  proof
    assume "\<exists>a b. split_py ''://'' s = [a, b]"
    then obtain a b where ab: "split_py ''://'' s = [a, b]" by blast
    then have "a \<in> set (split_py ''://'' s)" by simp
    then have "set a \<subseteq> set s" by (rule split_py_chars)
    with assms have "CHR ''+'' \<notin> set a" by blast
    then have "split_py ''+'' a = [a]" by (rule split_py_char_absent)
    with ab show ?thesis by (simp add: parse_task_def)
  next
    assume "\<exists>m. unpack2 (split_py ''://'' s) = Inl (Exc ValueError m)"
    then show ?thesis by (auto simp: parse_task_def)
  qed
qed

lemma split_scheme_tokens:
  assumes "CHR '':'' \<notin> set kinds" and "length (filter (\<lambda>c. c = CHR ''/'') func) \<le> 1"
  shows "split_py ''://'' (kinds @ ''://'' @ func) = [kinds, func]"
proof -
  have "\<not> str_contains ''://'' func"
    using contains_scheme_slashes[of func] assms(2) by auto
  then have "split_py ''://'' func = [func]" by (rule split_py_absent)
  with split_py_first[OF assms(1), of "''//''" func] show ?thesis by simp
qed

lemma filter_absent: "c \<notin> set s \<Longrightarrow> filter (\<lambda>x. x = c) s = []"
  by (induction s) auto

lemma parse_task_no_id:
  assumes "CHR ''+'' \<notin> set k1" "CHR ''+'' \<notin> set k2" "CHR '':'' \<notin> set k1" "CHR '':'' \<notin> set k2"
    and "CHR ''/'' \<notin> set p" "CHR ''/'' \<notin> set n" "CHR '':'' \<notin> set n"
  shows "\<exists>m. parse_task (k1 @ ''+'' @ k2 @ ''://'' @ p @ ''/'' @ n) tid = Inl (Exc ValueError m)"
proof -
  have s1: "split_py ''://'' ((k1 @ ''+'' @ k2) @ ''://'' @ (p @ ''/'' @ n)) = [k1 @ ''+'' @ k2, p @ ''/'' @ n]"
    using assms by (intro split_scheme_tokens) (simp_all add: filter_absent)
  have s2: "split_py ''+'' (k1 @ ''+'' @ k2) = [k1, k2]"
    using split_py_first[OF assms(1), of "[]" k2] split_py_char_absent[OF assms(2)] by simp
  have s3: "split_py ''/'' (p @ ''/'' @ n) = [p, n]"
    using split_py_first[OF assms(5), of "[]" n] split_py_char_absent[OF assms(6)] by simp
  have s4: "split_py '':'' n = [n]"
    using assms(7) by (rule split_py_char_absent)
  from s1 have s1': "split_py ''://'' (k1 @ ''+'' @ k2 @ ''://'' @ p @ ''/'' @ n) = [k1 @ ''+'' @ k2, p @ ''/'' @ n]"
    by simp
  show ?thesis
    using s1' s2 s3 s4 by (simp add: parse_task_def)
qed

lemma parse_task_encode:
  assumes "CHR ''+'' \<notin> set k1" "CHR ''+'' \<notin> set k2" "CHR '':'' \<notin> set k1" "CHR '':'' \<notin> set k2"
    and "CHR ''/'' \<notin> set p" "CHR ''/'' \<notin> set n" "CHR '':'' \<notin> set n"
    and "CHR ''/'' \<notin> set i" "CHR '':'' \<notin> set i"
  shows "parse_task (encode_task k1 k2 p n i) tid =
           Inr \<lparr>function_kind = k1, task_kind = k2, function_name = n, function_id = i, task_id = tid\<rparr>"
proof -
  have s1: "split_py ''://'' ((k1 @ ''+'' @ k2) @ ''://'' @ (p @ ''/'' @ n @ '':'' @ i)) = [k1 @ ''+'' @ k2, p @ ''/'' @ n @ '':'' @ i]"
    using assms by (intro split_scheme_tokens) (simp_all add: filter_absent)
  have s2: "split_py ''+'' (k1 @ ''+'' @ k2) = [k1, k2]"
    using split_py_first[OF assms(1), of "[]" k2] split_py_char_absent[OF assms(2)] by simp
  have "CHR ''/'' \<notin> set (n @ '':'' @ i)" using assms by simp
  then have "split_py ''/'' (n @ '':'' @ i) = [n @ '':'' @ i]" by (rule split_py_char_absent)
  then have s3: "split_py ''/'' (p @ ''/'' @ n @ '':'' @ i) = [p, n @ '':'' @ i]"
    using split_py_first[OF assms(5), of "[]" "n @ '':'' @ i"] by simp
  have s4: "split_py '':'' (n @ '':'' @ i) = [n, i]"
    using split_py_first[OF assms(7), of "[]" i] split_py_char_absent[OF assms(9)] by simp
  from s1 have s1': "split_py ''://'' (k1 @ ''+'' @ k2 @ ''://'' @ p @ ''/'' @ n @ '':'' @ i) = [k1 @ ''+'' @ k2, p @ ''/'' @ n @ '':'' @ i]"
    by simp
  show ?thesis
    using s1' s2 s3 s4 by (simp add: parse_task_def encode_task_def)
qed

lemma last_segment_unique:
  assumes "xs @ c # ys = xs' @ c # ys'" "c \<notin> set ys" "c \<notin> set ys'"
  shows "ys = ys'"
proof -
  have "rev ys @ c # rev xs = rev ys' @ c # rev xs'"
    using arg_cong[OF assms(1), of rev] by simp
  then have "takeWhile (\<lambda>x. x \<noteq> c) (rev ys @ c # rev xs) = takeWhile (\<lambda>x. x \<noteq> c) (rev ys' @ c # rev xs')"
    by simp
  moreover have "takeWhile (\<lambda>x. x \<noteq> c) (rev ys @ c # rev xs) = rev ys"
    using assms(2) by (auto simp: takeWhile_tail)
  moreover have "takeWhile (\<lambda>x. x \<noteq> c) (rev ys' @ c # rev xs') = rev ys'"
    using assms(3) by (auto simp: takeWhile_tail)
  ultimately show ?thesis by simp
qed

lemma join_py_Cons: "ys \<noteq> [] \<Longrightarrow> join_py sep (x # ys) = x @ sep @ join_py sep ys"
  by (cases ys) auto

lemma join_py_cons_first: "ps \<noteq> [] \<Longrightarrow> join_py sep (cons_first c ps) = c # join_py sep ps"
  by (cases ps; cases "tl ps") auto

lemma split_py_join: "join_py (d # ds) (split_py (d # ds) s) = s"
proof (induction s rule: length_induct)
  case (1 s)
  show ?case
  proof (cases s)
    case Nil
    then show ?thesis by simp
  next
    case (Cons c cs)
    show ?thesis
    proof (cases "c = d \<and> take (length ds) cs = ds")
      case True
      have "length (drop (length ds) cs) < length s" using Cons by simp
      with 1 have ih: "join_py (d # ds) (split_py (d # ds) (drop (length ds) cs)) = drop (length ds) cs"
        by blast
      have "ds @ drop (length ds) cs = cs"
        using True append_take_drop_id[of "length ds" cs] by simp
      moreover from True have "split_py (d # ds) (c # cs) = [] # split_py (d # ds) (drop (length ds) cs)"
        by auto
      ultimately show ?thesis
        using True Cons ih by (simp add: join_py_Cons[OF split_py_not_Nil])
    next
      case False
      have "length cs < length s" using Cons by simp
      with 1 have ih: "join_py (d # ds) (split_py (d # ds) cs) = cs" by blast
      from False have "split_py (d # ds) (c # cs) = cons_first c (split_py (d # ds) cs)"
        by auto
      with Cons ih show ?thesis
        by (simp only: join_py_cons_first[OF split_py_not_Nil])
    qed
  qed
qed

lemma split_py_char_pieces: "p \<in> set (split_py [d] s) \<Longrightarrow> d \<notin> set p"
proof (induction s arbitrary: p)
  case Nil
  then show ?case by simp
next
  case (Cons c cs)
  show ?case
  proof (cases "c = d")
    case True
    with Cons.prems have "p = [] \<or> p \<in> set (split_py [d] cs)" by simp
    with Cons.IH show ?thesis by auto
  next
    case False
    obtain q qs where q: "split_py [d] cs = q # qs"
      using split_py_not_Nil[of d "[]" cs] by (cases "split_py [d] cs") auto
    with False Cons.prems have "p = c # q \<or> p \<in> set qs" by simp
    moreover have "d \<notin> set q" using Cons.IH[of q] q by simp
    moreover have "\<And>x. x \<in> set qs \<Longrightarrow> d \<notin> set x" using Cons.IH q by simp
    ultimately show ?thesis using False by auto
  qed
qed

lemma unpack2_Inr: "unpack2 xs = Inr (a, b) \<Longrightarrow> xs = [a, b]"
  by (cases xs rule: unpack2.cases) auto

lemma index1_Inr: "index1 xs = Inr b \<Longrightarrow> \<exists>a r. xs = a # b # r"
  by (cases xs rule: index1.cases) auto

lemma split2_join:
  assumes "split_py (d # ds) s = [a, b]"
  shows "s = a @ (d # ds) @ b"
  using split_py_join[of d ds s] assms by simp

lemma parse_task_Inr_form:
  assumes "parse_task s tid = Inr ts"
  shows "\<exists>p rest. s = encode_task (function_kind ts) (task_kind ts) p (function_name ts)
                        (function_id ts) @ rest \<and>
           (rest = [] \<or> (\<exists>r. rest = CHR ''/'' # r)) \<and>
           CHR ''+'' \<notin> set (function_kind ts) \<and> CHR ''+'' \<notin> set (task_kind ts) \<and>
           CHR ''/'' \<notin> set p \<and> CHR ''/'' \<notin> set (function_name ts) \<and>
           CHR ''/'' \<notin> set (function_id ts) \<and>
           CHR '':'' \<notin> set (function_name ts) \<and> CHR '':'' \<notin> set (function_id ts)"
proof -
  from assms obtain kinds func k1 k2 seg n i where
    u1: "unpack2 (split_py ''://'' s) = Inr (kinds, func)"
    and u2: "unpack2 (split_py ''+'' kinds) = Inr (k1, k2)"
    and u3: "index1 (split_py ''/'' func) = Inr seg"
    and u4: "unpack2 (split_py '':'' seg) = Inr (n, i)"
    and ts: "ts = \<lparr>function_kind = k1, task_kind = k2, function_name = n, function_id = i,
                   task_id = tid\<rparr>"
    by (auto simp: parse_task_def bind_Inr_iff split: prod.splits)
  note p1 = unpack2_Inr[OF u1] and p2 = unpack2_Inr[OF u2] and p4 = unpack2_Inr[OF u4]
  from index1_Inr[OF u3] obtain p more where p3: "split_py ''/'' func = p # seg # more" by blast
  have s1: "s = kinds @ ''://'' @ func" using split2_join[OF p1] .
  have s2: "kinds = k1 @ ''+'' @ k2" using split2_join[OF p2] .
  have s4: "seg = n @ '':'' @ i" using split2_join[OF p4] .
  have k: "CHR ''+'' \<notin> set k1" "CHR ''+'' \<notin> set k2"
    using split_py_char_pieces[of k1 "CHR ''+''" kinds] split_py_char_pieces[of k2 "CHR ''+''" kinds] p2
    by simp_all
  have c: "CHR '':'' \<notin> set n" "CHR '':'' \<notin> set i"
    using split_py_char_pieces[of n "CHR '':''" seg] split_py_char_pieces[of i "CHR '':''" seg] p4
    by simp_all
  have sl: "CHR ''/'' \<notin> set p" "CHR ''/'' \<notin> set seg"
    using split_py_char_pieces[of p "CHR ''/''" func] split_py_char_pieces[of seg "CHR ''/''" func] p3
    by simp_all
  with s4 have sl': "CHR ''/'' \<notin> set n" "CHR ''/'' \<notin> set i" by simp_all
  define rest where "rest = (if more = [] then [] else ''/'' @ join_py ''/'' more)"
  have "func = join_py ''/'' (p # seg # more)"
    using split_py_join[of "CHR ''/''" "[]" func] p3 by simp
  then have s3: "func = p @ ''/'' @ seg @ rest"
    by (cases more) (simp_all add: rest_def)
  have r: "rest = [] \<or> (\<exists>r. rest = CHR ''/'' # r)" by (simp add: rest_def)
  have "s = encode_task k1 k2 p n i @ rest"
    using s1 s2 s3 s4 by (simp add: encode_task_def)
  with r k c sl sl' ts show ?thesis by auto
qed

lemma parse_task_error_class:
  assumes "parse_task s tid = Inl e"
  shows "\<exists>m. e = Exc ValueError m \<or> e = Exc IndexError m"
proof -
  have u: "\<And>xs x. unpack2 xs = Inl x \<Longrightarrow> \<exists>m. x = Exc ValueError m"
    by (metis unpack2_cases sum.inject(1) sum.distinct(1) unpack2.simps(1))
  have ix: "\<And>xs x. index1 xs = Inl x \<Longrightarrow> \<exists>m. x = Exc IndexError m"
    subgoal for xs x by (cases xs rule: index1.cases) auto
    done
  from assms show ?thesis
    unfolding parse_task_def bind_def
    by (auto split: sum.splits prod.splits dest: u ix)
qed

section \<open>Parsing task strings\<close>

text \<open>
  C5 (as stated, refuted). A task string that does not match the format of the
  specification can still be parsed: the parser reads the second segment after
  \<open>://\<close>, not the last one, so \<open>a+b://p/n:i/x\<close>, whose last segment \<open>x\<close> is no
  name/id pair, yields the fields of \<open>a+b://p/n:i\<close>.
\<close>

theorem parse_task_accepts_trailing_segment:
  "\<not> spec_task_format ''a+b://p/n:i/x'' \<and>
   parse_task ''a+b://p/n:i/x'' JNull =
     Inr \<lparr>function_kind = ''a'', task_kind = ''b'', function_name = ''n'',
          function_id = ''i'', task_id = JNull\<rparr>"
proof
  show "\<not> spec_task_format ''a+b://p/n:i/x''"
  proof
    assume "spec_task_format ''a+b://p/n:i/x''"
    then obtain k1 k2 p n i where
      eq: "''a+b://p/n:i/x'' = k1 @ ''+'' @ k2 @ ''://'' @ p @ ''/'' @ n @ '':'' @ i"
      and nf: "CHR ''/'' \<notin> set n" "CHR ''/'' \<notin> set i"
      unfolding spec_task_format_def encode_task_def by blast
    have "''a+b://p/n:i'' @ CHR ''/'' # ''x'' =
            (k1 @ ''+'' @ k2 @ ''://'' @ p) @ CHR ''/'' # (n @ '':'' @ i)"
      using eq by simp
    then have "''x'' = n @ '':'' @ i"
      by (rule last_segment_unique) (use nf in simp_all)
    then have "CHR '':'' \<in> set ''x''"
      by (metis in_set_conv_decomp append_Cons append_Nil)
    then show False by simp
  qed
  show "parse_task ''a+b://p/n:i/x'' JNull =
     Inr \<lparr>function_kind = ''a'', task_kind = ''b'', function_name = ''n'',
          function_id = ''i'', task_id = JNull\<rparr>"
    by (simp add: parse_task_def)
qed

text \<open>
  C5 (amended). Parsing fails, with Python's \<open>ValueError\<close> or \<open>IndexError\<close> (the
  code has no class of its own for a malformed reference), for every task string that
  is not of the form \<open>k1+k2://p/n:id\<close> followed by nothing or by \<open>/\<close> and further
  text. In particular it fails with \<open>ValueError\<close> for every string that does not
  contain \<open>://\<close>, or \<open>+\<close>, or \<open>:\<close>, and for every string \<open>k1+k2://p/n\<close>
  that lacks the \<open>:id\<close> part, the tokens being free of the separators.
\<close>

theorem parse_task_missing_separator:
  "(\<not> accepted_form s \<longrightarrow>
      (\<exists>m. parse_task s tid = Inl (Exc ValueError m) \<or> parse_task s tid = Inl (Exc IndexError m))) \<and>
   (\<not> str_contains ''://'' s \<or> CHR ''+'' \<notin> set s \<or> CHR '':'' \<notin> set s \<longrightarrow>
      (\<exists>m. parse_task s tid = Inl (Exc ValueError m))) \<and>
   (CHR ''+'' \<notin> set k1 \<and> CHR ''+'' \<notin> set k2 \<and> CHR '':'' \<notin> set k1 \<and> CHR '':'' \<notin> set k2 \<and>
    CHR ''/'' \<notin> set p \<and> CHR ''/'' \<notin> set n \<and> CHR '':'' \<notin> set n \<longrightarrow>
      (\<exists>m. parse_task (k1 @ ''+'' @ k2 @ ''://'' @ p @ ''/'' @ n) tid = Inl (Exc ValueError m)))"
proof (intro conjI impI)
  assume na: "\<not> accepted_form s"
  show "\<exists>m. parse_task s tid = Inl (Exc ValueError m) \<or> parse_task s tid = Inl (Exc IndexError m)"
  proof (cases "parse_task s tid")
    case (Inl e)
    with parse_task_error_class[OF Inl] show ?thesis by auto
  next
    case (Inr ts)
    from parse_task_Inr_form[OF Inr] have "accepted_form s"
      unfolding accepted_form_def by blast
    with na show ?thesis by simp
  qed
next
  assume "\<not> str_contains ''://'' s \<or> CHR ''+'' \<notin> set s \<or> CHR '':'' \<notin> set s"
  then show "\<exists>m. parse_task s tid = Inl (Exc ValueError m)"
    using parse_task_no_scheme[of s tid] parse_task_no_plus[of s tid]
      str_contains_char[of "CHR '':''" "''//''" s]
    by blast
next
  assume "CHR ''+'' \<notin> set k1 \<and> CHR ''+'' \<notin> set k2 \<and> CHR '':'' \<notin> set k1 \<and> CHR '':'' \<notin> set k2 \<and>
    CHR ''/'' \<notin> set p \<and> CHR ''/'' \<notin> set n \<and> CHR '':'' \<notin> set n"
  then show "\<exists>m. parse_task (k1 @ ''+'' @ k2 @ ''://'' @ p @ ''/'' @ n) tid = Inl (Exc ValueError m)"
    using parse_task_no_id[of k1 k2 p n tid] by blast
qed

theorem parse_task_missing_separator_witness:
  "\<not> accepted_form ''ab'' \<and> \<not> str_contains ''://'' ''ab'' \<and>
   (\<exists>m. parse_task ''ab'' JNull = Inl (Exc ValueError m)) \<and>
   (\<exists>m. parse_task (''a'' @ ''+'' @ ''b'' @ ''://'' @ ''p'' @ ''/'' @ ''n'') JNull =
          Inl (Exc ValueError m))"
proof -
  have h0: "\<not> accepted_form ''ab''"
  proof
    assume "accepted_form ''ab''"
    then obtain k1 k2 p n i rest where "''ab'' = encode_task k1 k2 p n i @ rest"
      unfolding accepted_form_def by blast
    then have "CHR ''+'' \<in> set ''ab''"
      unfolding encode_task_def by (metis in_set_conv_decomp append_Cons append_Nil append_assoc)
    then show False by simp
  qed
  have h1: "\<not> str_contains ''://'' ''ab''" by simp
  have h3: "CHR ''+'' \<notin> set ''a'' \<and> CHR ''+'' \<notin> set ''b'' \<and> CHR '':'' \<notin> set ''a'' \<and>
            CHR '':'' \<notin> set ''b'' \<and> CHR ''/'' \<notin> set ''p'' \<and> CHR ''/'' \<notin> set ''n'' \<and>
            CHR '':'' \<notin> set ''n''" by simp
  from parse_task_missing_separator[of "''ab''" JNull "''a''" "''b''" "''p''" "''n''"] h0 h1 h3
  show ?thesis by blast
qed

text \<open>
  C6 (as stated, refuted). The string \<open>a+b://x/y/n:i\<close> has the format of the
  specification, with the path \<open>x/y\<close> and the name/id pair after the last \<open>/\<close>, and
  the parser fails on it: it looks for the pair in the segment \<open>y\<close>.
\<close>

theorem parse_task_rejects_nested_path:
  "spec_task_format ''a+b://x/y/n:i'' \<and>
   parse_task ''a+b://x/y/n:i'' JNull =
     Inl (Exc ValueError ''not enough values to unpack (expected 2, got 1)'')"
proof
  have "''a+b://x/y/n:i'' = encode_task ''a'' ''b'' ''x/y'' ''n'' ''i''"
    by (simp add: encode_task_def)
  then show "spec_task_format ''a+b://x/y/n:i''"
    unfolding spec_task_format_def
    by (intro exI[of _ "''a''"] exI[of _ "''b''"] exI[of _ "''x/y''"] exI[of _ "''n''"]
          exI[of _ "''i''"]) simp
  show "parse_task ''a+b://x/y/n:i'' JNull =
     Inl (Exc ValueError ''not enough values to unpack (expected 2, got 1)'')"
    by (simp add: parse_task_def)
qed

text \<open>
  C6 (amended). For a task string \<open>k1+k2://p/n:id\<close> whose kind tokens contain neither
  \<open>+\<close> nor \<open>:\<close>, whose path contains no \<open>/\<close>, and whose name and id contain neither
  \<open>/\<close> nor \<open>:\<close>, parsing yields the kinds, the name and the id together with the
  task id of the Run, and encoding these fields with the path gives the string back.
\<close>

theorem parse_task_round_trip:
  assumes "CHR ''+'' \<notin> set k1" and "CHR ''+'' \<notin> set k2"
    and "CHR '':'' \<notin> set k1" and "CHR '':'' \<notin> set k2"
    and "CHR ''/'' \<notin> set p"
    and "CHR ''/'' \<notin> set n" and "CHR '':'' \<notin> set n"
    and "CHR ''/'' \<notin> set i" and "CHR '':'' \<notin> set i"
  shows "\<exists>ts. parse_task (encode_task k1 k2 p n i) tid = Inr ts \<and>
           function_kind ts = k1 \<and> task_kind ts = k2 \<and> function_name ts = n \<and>
           function_id ts = i \<and> task_id ts = tid \<and>
           encode_task (function_kind ts) (task_kind ts) p (function_name ts) (function_id ts) =
             encode_task k1 k2 p n i"
  using parse_task_encode[OF assms, of tid] by simp

theorem parse_task_round_trip_witness:
  "\<exists>ts. parse_task (encode_task ''transform'' ''transform'' ''ns'' ''myfn'' ''f1'') JNull = Inr ts \<and>
        function_kind ts = ''transform'' \<and> task_kind ts = ''transform'' \<and>
        function_name ts = ''myfn'' \<and> function_id ts = ''f1'' \<and> task_id ts = JNull \<and>
        encode_task (function_kind ts) (task_kind ts) ''ns'' (function_name ts) (function_id ts) =
          encode_task ''transform'' ''transform'' ''ns'' ''myfn'' ''f1''"
  by (rule parse_task_round_trip) simp_all

section \<open>Lemmas on dictionaries, saving and the Run protocol\<close>

lemma dict_merge_Nil [simp]: "dict_merge a [] = a"
  by (simp add: dict_merge_def)

lemma dict_merge_Cons [simp]: "dict_merge a ((k, v) # b) = dict_merge (AList.update k v a) b"
  by (simp add: dict_merge_def)

lemma map_of_dict_merge:
  "distinct (map fst b) \<Longrightarrow>
   map_of (dict_merge a b) k = (case map_of b k of Some v \<Rightarrow> Some v | None \<Rightarrow> map_of a k)"
proof (induction b arbitrary: a)
  case Nil
  then show ?case by simp
next
  case (Cons kv b)
  obtain k' v' where kv: "kv = (k', v')" by (cases kv)
  from Cons.prems kv have d: "distinct (map fst b)" and nk: "k' \<notin> fst ` set b" by auto
  from nk have none: "map_of b k' = None" by (simp add: map_of_eq_None_iff)
  show ?case
    using Cons.IH[OF d, of "AList.update k' v' a"] none
    by (auto simp: kv update_conv' split: option.splits)
qed

lemma py_get_to_dict_spec [simp]: "py_get (to_dict r) ''spec'' = Inr (JDict (spec r))"
  by (simp add: to_dict_def)

lemma py_get_to_dict_status [simp]: "py_get (to_dict r) ''status'' = Inr (JDict (status r))"
  by (simp add: to_dict_def)

lemma py_get_state [simp]: "py_get (JDict (status r)) ''state'' = Inr (state r)"
  by (simp add: state_def attr_def)

lemma save_obj_status: "py_get (save_obj r) ''status'' = Inr (JDict (status r))"
  by (simp add: save_obj_def to_dict_def update_conv')

lemma save_local: "local r \<Longrightarrow> save b r u = (Inl (Exc EntityError ''Use .export() for local execution.''), b, r)"
  by (simp add: save_def)

lemma save_update:
  "\<not> local r \<Longrightarrow>
   save b r (Some (run_id r)) =
     (Inr (save_obj r), b(api_base_update RUNS (JStr (run_id r)) \<mapsto> save_obj r), r)"
  by (simp add: save_def update_object_def)

lemma set_status_dict [simp]: "set_status r (JDict d) = Inr (r\<lparr>status := d\<rparr>)"
  by (simp add: set_status_def)


lemma run_runtime_raises:
  assumes "get_runtime reg r = Inr rt" and "runtime_run rt (to_dict r) = Inl e"
  shows "(\<not> local r \<longrightarrow>
            run reg b r =
              (Inr (r\<lparr>status := error_status e\<rparr>),
               b(api_base_update RUNS (JStr (run_id r)) \<mapsto> save_obj (r\<lparr>status := error_status e\<rparr>)),
               r\<lparr>status := error_status e\<rparr>)) \<and>
         (local r \<longrightarrow>
            run reg b r =
              (Inl (Exc EntityError ''Use .export() for local execution.''), b,
               r\<lparr>status := error_status e\<rparr>))"
  using assms save_update[of "r\<lparr>status := error_status e\<rparr>" b]
        save_local[of "r\<lparr>status := error_status e\<rparr>" b]
  by (simp add: run_def)

lemma run_unresolved:
  "get_runtime reg r = Inl e \<Longrightarrow> run reg b r = (Inl e, b, r)"
  by (simp add: run_def)

lemma get_runtime_parse_fails:
  "parse_task_string r = Inl e \<Longrightarrow> get_runtime reg r = Inl e"
  by (simp add: get_runtime_def bind_def)

lemma get_runtime_unknown:
  "parse_task_string r = Inr ts \<Longrightarrow> reg (function_kind ts) = None \<Longrightarrow>
   get_runtime reg r = Inl (Exc UnknownRuntime (''No runtime for function kind '' @ function_kind ts))"
  by (simp add: get_runtime_def bind_def build_runtime_def)

lemma build_status:
  assumes "build reg b r = (out, b', r')"
  shows "status r' = status r \<or> status r' = [(''state'', JStr State_PENDING)]"
  using assms
  by (auto simp: build_def save_def update_object_def split: sum.splits if_splits prod.splits)

lemma build_status_ok:
  assumes "build reg b r = (Inr u, b', r')"
  shows "status r' = [(''state'', JStr State_PENDING)]"
  using assms
  by (auto simp: build_def save_def update_object_def split: sum.splits if_splits prod.splits)

lemmas sample_defs = sample_run_def sample_backend_def sample_registry_def sample_task_def
  sample_function_def sample_task_obj_def sample_function_spec_def sample_task_spec_def

lemmas eval_defs = get_function_def get_task_def get_runtime_def parse_task_string_def parse_task_def
  attr_def build_runtime_def read_object_def api_ctx_read_def api_base_read_def api_base_update_def
  update_object_def RuntimeDBT_def DBT_build_def to_dict_def as_mapping_def
  build_spec_def set_status_def save_def save_obj_def FUNC_def TASK_def RUNS_def

lemma sample_build:
  "build sample_registry sample_backend sample_run =
     (Inr (),
      sample_backend(ApiBase RUNS (JStr ''r1'') \<mapsto>
         save_obj (sample_run\<lparr>spec := dict_merge (dict_merge sample_function_spec sample_task_spec)
                                       (spec sample_run),
                          status := [(''state'', JStr State_PENDING)]\<rparr>)),
      sample_run\<lparr>spec := dict_merge (dict_merge sample_function_spec sample_task_spec)
                                       (spec sample_run),
                          status := [(''state'', JStr State_PENDING)]\<rparr>)"
  by (simp add: build_def eval_defs sample_defs)

section \<open>Building a Run\<close>

text \<open>
  C3 (as stated, refuted). When the merged spec holds the key \<open>ignore_validation\<close>,
  here from the spec of the function, \<open>Run.build\<close> raises \<open>TypeError\<close> at the call
  of the spec builder, which is given that keyword already, and the spec of the Run is
  not replaced.
\<close>

theorem build_reserved_key_raises:
  "get_function sample_flag_backend sample_run = Inr sample_flag_function \<and>
   DBT_build sample_flag_function sample_task_obj (to_dict sample_run) =
     Inr (JDict [(''ignore_validation'', JBool False), (''sql'', JStr ''b3RoZXI=''),
                 (''task'', JStr ''dbt+transform://ns/myfn:f1''), (''task_id'', JStr ''t1''),
                 (''inputs'', JDict [(''dataitems'', JList [JStr ''t1''])]),
                 (''outputs'', JDict [(''dataitems'', JList [JStr ''t2''])])]) \<and>
   build sample_registry sample_flag_backend sample_run =
     (Inl (Exc TypeError (''build_spec() got multiple values for keyword argument '' @
                          [CHR 0x27] @ ''ignore_validation'' @ [CHR 0x27])),
      sample_flag_backend, sample_run) \<and>
   map_of (spec sample_run) ''ignore_validation'' = None"
  by (simp add: build_def eval_defs sample_defs sample_flag_backend_def sample_flag_function_def)

text \<open>
  C3 (amended). When function, task and run each carry a spec mapping (with each key
  once, as a dictionary has it), \<open>RuntimeDBT.build\<close> returns the merge of the function
  spec, the task spec and the run spec in that order: a key's value is the Run's when the
  Run has the key, else the Task's when the Task has it, else the Function's. When the
  merged mapping does not hold the key \<open>ignore_validation\<close>, \<open>Run.build\<close> with this
  runtime replaces the spec of the Run by the merged mapping (and sets the status to
  pending; it returns normally unless the Run is local). When the merged mapping holds
  that key, \<open>Run.build\<close> raises \<open>TypeError\<close> and leaves the Run and the backend as
  they were.
\<close>

theorem build_merges_specs:
  assumes "py_get f ''spec'' = Inr (JDict fs)" and "py_get t ''spec'' = Inr (JDict ts)"
    and "py_get rn ''spec'' = Inr (JDict rs)"
    and "distinct (map fst ts)" and "distinct (map fst rs)"
  shows "DBT_build f t rn = Inr (JDict (dict_merge (dict_merge fs ts) rs)) \<and>
         (\<forall>k. map_of (dict_merge (dict_merge fs ts) rs) k =
               (case map_of rs k of Some v \<Rightarrow> Some v
                | None \<Rightarrow> (case map_of ts k of Some v \<Rightarrow> Some v | None \<Rightarrow> map_of fs k))) \<and>
         (rn = to_dict r \<and> get_function b r = Inr f \<and> get_task b r = Inr t \<and>
          get_runtime reg r = Inr (RuntimeDBT env) \<and>
          map_of (dict_merge (dict_merge fs ts) rs) ''ignore_validation'' = None \<longrightarrow>
            (\<exists>out b'. build reg b r =
               (out, b', r\<lparr>spec := dict_merge (dict_merge fs ts) rs,
                           status := [(''state'', JStr State_PENDING)]\<rparr>) \<and>
               (local r \<or> out = Inr ()))) \<and>
         (rn = to_dict r \<and> get_function b r = Inr f \<and> get_task b r = Inr t \<and>
          get_runtime reg r = Inr (RuntimeDBT env) \<and>
          map_of (dict_merge (dict_merge fs ts) rs) ''ignore_validation'' \<noteq> None \<longrightarrow>
            (\<exists>m. build reg b r = (Inl (Exc TypeError m), b, r)))"
proof (intro conjI allI impI)
  show m: "DBT_build f t rn = Inr (JDict (dict_merge (dict_merge fs ts) rs))"
    using assms(1-3) by (simp add: DBT_build_def as_mapping_def)
  show "map_of (dict_merge (dict_merge fs ts) rs) k =
          (case map_of rs k of Some v \<Rightarrow> Some v
           | None \<Rightarrow> (case map_of ts k of Some v \<Rightarrow> Some v | None \<Rightarrow> map_of fs k))" for k
    by (simp add: map_of_dict_merge[OF assms(5)] map_of_dict_merge[OF assms(4)] split: option.splits)
  let ?m = "dict_merge (dict_merge fs ts) rs"
  let ?r' = "r\<lparr>spec := ?m, status := [(''state'', JStr State_PENDING)]\<rparr>"
  {
    assume h: "rn = to_dict r \<and> get_function b r = Inr f \<and> get_task b r = Inr t \<and>
               get_runtime reg r = Inr (RuntimeDBT env) \<and> map_of ?m ''ignore_validation'' = None"
    have rb: "runtime_build (RuntimeDBT env) f t (to_dict r) = Inr (JDict ?m)"
      using m h by (simp add: RuntimeDBT_def)
    have bs: "build_spec (JDict ?m) = Inr ?m"
      using h by (simp add: build_spec_def)
    show "\<exists>out b'. build reg b r = (out, b', ?r') \<and> (local r \<or> out = Inr ())"
    proof (cases "local r")
      case True
      then have "build reg b r = (Inl (Exc EntityError ''Use .export() for local execution.''), b, ?r')"
        using h rb bs save_local[of ?r' b] by (simp add: build_def)
      with True show ?thesis by blast
    next
      case False
      then have "build reg b r =
          (Inr (), b(api_base_update RUNS (JStr (run_id r)) \<mapsto> save_obj ?r'), ?r')"
        using h rb bs save_update[of ?r' b] by (simp add: build_def)
      then show ?thesis by blast
    qed
  }
  {
    assume h: "rn = to_dict r \<and> get_function b r = Inr f \<and> get_task b r = Inr t \<and>
               get_runtime reg r = Inr (RuntimeDBT env) \<and> map_of ?m ''ignore_validation'' \<noteq> None"
    have rb: "runtime_build (RuntimeDBT env) f t (to_dict r) = Inr (JDict ?m)"
      using m h by (simp add: RuntimeDBT_def)
    from h obtain msg where bs: "build_spec (JDict ?m) = Inl (Exc TypeError msg)"
      by (auto simp: build_spec_def)
    have "build reg b r = (Inl (Exc TypeError msg), b, r)"
      using h rb bs by (simp add: build_def)
    then show "\<exists>m. build reg b r = (Inl (Exc TypeError m), b, r)" by blast
  }
qed

theorem build_merges_specs_witness:
  "DBT_build sample_function sample_task_obj (to_dict sample_run) =
     Inr (JDict (dict_merge (dict_merge sample_function_spec sample_task_spec) (spec sample_run))) \<and>
   map_of (dict_merge (dict_merge sample_function_spec sample_task_spec) (spec sample_run)) ''sql'' =
     Some (JStr ''b3RoZXI='') \<and>
   map_of (dict_merge (dict_merge sample_function_spec sample_task_spec) (spec sample_run)) ''outputs'' =
     Some (JDict [(''dataitems'', JList [JStr ''t2''])]) \<and>
   map_of (dict_merge (dict_merge sample_function_spec sample_task_spec) (spec sample_run))
     ''ignore_validation'' = None \<and>
   (\<exists>b'. build sample_registry sample_backend sample_run =
      (Inr (), b', sample_run\<lparr>spec := dict_merge (dict_merge sample_function_spec sample_task_spec)
                                       (spec sample_run),
                          status := [(''state'', JStr State_PENDING)]\<rparr>)) \<and>
   map_of (dict_merge (dict_merge [(''ignore_validation'', JBool False)] sample_task_spec)
             (spec sample_run)) ''ignore_validation'' \<noteq> None \<and>
   (\<exists>m. build sample_registry sample_flag_backend sample_run =
      (Inl (Exc TypeError m), sample_flag_backend, sample_run))"
proof -
  have h1: "py_get sample_function ''spec'' = Inr (JDict sample_function_spec)"
    by (simp add: sample_function_def)
  have h2: "py_get sample_task_obj ''spec'' = Inr (JDict sample_task_spec)"
    by (simp add: sample_task_obj_def)
  have h3: "py_get (to_dict sample_run) ''spec'' = Inr (JDict (spec sample_run))"
    by simp
  have h4: "distinct (map fst sample_task_spec)"
    by (simp add: sample_task_spec_def)
  have h5: "distinct (map fst (spec sample_run))"
    by (simp add: sample_run_def)
  have h6: "get_function sample_backend sample_run = Inr sample_function"
    by (simp add: eval_defs sample_run_def sample_backend_def sample_task_def)
  have h7: "get_task sample_backend sample_run = Inr sample_task_obj"
    by (simp add: eval_defs sample_run_def sample_backend_def sample_task_def)
  have h8: "get_runtime sample_registry sample_run = Inr (RuntimeDBT sample_env)"
    by (simp add: eval_defs sample_run_def sample_registry_def sample_task_def)
  have h9: "\<not> local sample_run"
    by (simp add: sample_run_def)
  have s1: "map_of (spec sample_run) ''sql'' = None"
    by (simp add: sample_run_def)
  have s2: "map_of sample_task_spec ''sql'' = Some (JStr ''b3RoZXI='')"
    by (simp add: sample_task_spec_def)
  have s3: "map_of (spec sample_run) ''outputs'' = Some (JDict [(''dataitems'', JList [JStr ''t2''])])"
    by (simp add: sample_run_def)
  have s4: "map_of (dict_merge (dict_merge sample_function_spec sample_task_spec) (spec sample_run))
              ''ignore_validation'' = None"
    by (simp add: sample_function_spec_def sample_task_spec_def sample_run_def)
  have g1: "py_get sample_flag_function ''spec'' = Inr (JDict [(''ignore_validation'', JBool False)])"
    by (simp add: sample_flag_function_def)
  have g6: "get_function sample_flag_backend sample_run = Inr sample_flag_function"
    by (simp add: eval_defs sample_run_def sample_flag_backend_def sample_task_def)
  have g7: "get_task sample_flag_backend sample_run = Inr sample_task_obj"
    by (simp add: eval_defs sample_run_def sample_flag_backend_def sample_task_def)
  have s5: "map_of (dict_merge (dict_merge [(''ignore_validation'', JBool False)] sample_task_spec)
              (spec sample_run)) ''ignore_validation'' \<noteq> None"
    by (simp add: sample_task_spec_def sample_run_def)
  from build_merges_specs[OF h1 h2 h3 h4 h5, of sample_run sample_backend sample_registry sample_env]
    h6 h7 h8 h9 s1 s2 s3 s4
  have a: "DBT_build sample_function sample_task_obj (to_dict sample_run) =
     Inr (JDict (dict_merge (dict_merge sample_function_spec sample_task_spec) (spec sample_run))) \<and>
   map_of (dict_merge (dict_merge sample_function_spec sample_task_spec) (spec sample_run)) ''sql'' =
     Some (JStr ''b3RoZXI='') \<and>
   map_of (dict_merge (dict_merge sample_function_spec sample_task_spec) (spec sample_run)) ''outputs'' =
     Some (JDict [(''dataitems'', JList [JStr ''t2''])]) \<and>
   (\<exists>b'. build sample_registry sample_backend sample_run =
      (Inr (), b', sample_run\<lparr>spec := dict_merge (dict_merge sample_function_spec sample_task_spec)
                                       (spec sample_run),
                          status := [(''state'', JStr State_PENDING)]\<rparr>))"
    by auto
  from build_merges_specs[OF g1 h2 h3 h4 h5, of sample_run sample_flag_backend sample_registry
         sample_env] g6 g7 h8 s5
  have c: "\<exists>m. build sample_registry sample_flag_backend sample_run =
      (Inl (Exc TypeError m), sample_flag_backend, sample_run)"
    by blast
  from a s4 s5 c show ?thesis by blast
qed

text \<open>
  C4. A call of \<open>build\<close> that returns normally leaves the state \<open>PENDING\<close>, and
  whatever a second call of \<open>build\<close> right after it does, the state is \<open>PENDING\<close>
  after it too.
\<close>

theorem build_state_pending:
  assumes "build reg b r = (Inr u, b1, r1)"
  shows "state r1 = JStr State_PENDING \<and>
         (\<forall>out b2 r2. build reg b1 r1 = (out, b2, r2) \<longrightarrow> state r2 = JStr State_PENDING)"
proof -
  from build_status_ok[OF assms] have s1: "status r1 = [(''state'', JStr State_PENDING)]" .
  then have "state r1 = JStr State_PENDING" by (simp add: state_def attr_def)
  moreover have "state r2 = JStr State_PENDING" if "build reg b1 r1 = (out, b2, r2)" for out b2 r2
    using build_status[OF that] s1 by (auto simp: state_def attr_def)
  ultimately show ?thesis by blast
qed

theorem build_state_pending_witness:
  "fst sample_built = Inr () \<and>
   state (snd (snd sample_built)) = JStr State_PENDING \<and>
   fst (build sample_registry (fst (snd sample_built)) (snd (snd sample_built))) = Inr () \<and>
   state (snd (snd (build sample_registry (fst (snd sample_built)) (snd (snd sample_built))))) =
     JStr State_PENDING"
proof -
  obtain b1 r1 where b1: "sample_built = (Inr (), b1, r1)"
    using sample_build by (simp add: sample_built_def)
  have again: "fst (build sample_registry (fst (snd sample_built)) (snd (snd sample_built))) = Inr ()"
    unfolding sample_built_def sample_build
    by (simp add: build_def eval_defs sample_defs)
  obtain out b2 r2 where b2: "build sample_registry b1 r1 = (out, b2, r2)"
    by (cases "build sample_registry b1 r1") auto
  from build_state_pending[OF b1[unfolded sample_built_def]] b2
  have st: "state r1 = JStr State_PENDING" "state r2 = JStr State_PENDING" by blast+
  from again have again': "fst (build sample_registry b1 r1) = Inr ()"
    unfolding b1 by simp
  show ?thesis
    unfolding b1 using st b2 again' by simp
qed

section \<open>Executing a Run\<close>

text \<open>
  C10. The runtime is resolved before the boundary that catches exceptions: when the
  task string of the Run cannot be parsed, or no runtime is registered for its function
  kind, \<open>run\<close> raises that error to the caller and leaves the Run and the backend as
  they were.
\<close>

theorem run_resolution_errors_propagate:
  "(parse_task_string r = Inl e \<longrightarrow> run reg b r = (Inl e, b, r)) \<and>
   (parse_task_string r = Inr ts \<and> reg (function_kind ts) = None \<longrightarrow>
      run reg b r =
        (Inl (Exc UnknownRuntime (''No runtime for function kind '' @ function_kind ts)), b, r))"
  using run_unresolved[OF get_runtime_parse_fails, of r e reg b]
    run_unresolved[OF get_runtime_unknown, of r ts reg b]
  by blast

theorem run_resolution_errors_propagate_witness:
  "run sample_registry sample_backend (sample_run\<lparr>spec := [(''task'', JStr ''transform'')]\<rparr>) =
     (Inl (Exc ValueError ''not enough values to unpack (expected 2, got 1)''), sample_backend,
      sample_run\<lparr>spec := [(''task'', JStr ''transform'')]\<rparr>) \<and>
   run Map.empty sample_backend sample_run =
     (Inl (Exc UnknownRuntime ''No runtime for function kind dbt''), sample_backend, sample_run)"
proof -
  have h1: "parse_task_string (sample_run\<lparr>spec := [(''task'', JStr ''transform'')]\<rparr>) =
              Inl (Exc ValueError ''not enough values to unpack (expected 2, got 1)'')"
    by (simp add: parse_task_string_def parse_task_def attr_def)
  have h2: "parse_task_string sample_run =
              Inr \<lparr>function_kind = ''dbt'', task_kind = ''transform'', function_name = ''myfn'',
                   function_id = ''f1'', task_id = JStr ''t1''\<rparr>"
    by (simp add: parse_task_string_def parse_task_def attr_def sample_run_def sample_task_def)
  from run_resolution_errors_propagate[of "sample_run\<lparr>spec := [(''task'', JStr ''transform'')]\<rparr>"
        "Exc ValueError ''not enough values to unpack (expected 2, got 1)''" sample_registry sample_backend]
    h1
  have a: "run sample_registry sample_backend (sample_run\<lparr>spec := [(''task'', JStr ''transform'')]\<rparr>) =
     (Inl (Exc ValueError ''not enough values to unpack (expected 2, got 1)''), sample_backend,
      sample_run\<lparr>spec := [(''task'', JStr ''transform'')]\<rparr>)" by blast
  from run_resolution_errors_propagate[of sample_run _ Map.empty sample_backend
        "\<lparr>function_kind = ''dbt'', task_kind = ''transform'', function_name = ''myfn'',
                   function_id = ''f1'', task_id = JStr ''t1''\<rparr>"] h2
  have b: "run Map.empty sample_backend sample_run =
     (Inl (Exc UnknownRuntime ''No runtime for function kind dbt''), sample_backend, sample_run)"
    by simp
  from a b show ?thesis by blast
qed

text \<open>
  C1 (as stated, refuted). For a local Run whose runtime raises, \<open>run\<close> itself raises
  (the \<open>EntityError\<close> of \<open>save\<close>) and nothing is stored under the Run's id; and for
  a runtime that raises an exception with an empty text the message recorded is empty.
\<close>

theorem run_local_failure_raises:
  "fst (run (boom_registry (Exc RuntimeError ''boom'')) sample_backend (sample_run\<lparr>local := True\<rparr>)) =
     Inl (Exc EntityError ''Use .export() for local execution.'') \<and>
   fst (snd (run (boom_registry (Exc RuntimeError ''boom'')) sample_backend
               (sample_run\<lparr>local := True\<rparr>))) (api_base_update RUNS (JStr ''r1'')) = None \<and>
   attr (status (snd (snd (run (boom_registry (Exc RuntimeError [])) sample_backend sample_run))))
     ''message'' = JStr []"
  by (simp add: run_def eval_defs sample_defs boom_registry_def failing_runtime_def error_status_def)

text \<open>
  C1 (amended). When the runtime of a Run is resolved and its \<open>run\<close> raises an
  exception \<open>e\<close>, the status of the Run becomes state \<open>ERROR\<close> with message
  \<open>str(e)\<close>, which is empty when \<open>str(e)\<close> is. For a Run that is not local the
  exception is not propagated, the object stored in the backend under the Run's id
  carries that status, and the Run is returned. For a local Run the status is set in the
  same way, but \<open>save\<close> raises \<open>EntityError\<close> to the caller and the backend is left
  as it was.
\<close>

theorem run_records_runtime_failure:
  assumes "get_runtime reg r = Inr rt" and "runtime_run rt (to_dict r) = Inl e"
  shows "state (r\<lparr>status := error_status e\<rparr>) = JStr State_ERROR \<and>
         attr (status (r\<lparr>status := error_status e\<rparr>)) ''message'' = JStr (str_exn e) \<and>
         py_get (save_obj (r\<lparr>status := error_status e\<rparr>)) ''status'' = Inr (JDict (error_status e)) \<and>
         (\<not> local r \<longrightarrow>
            run reg b r =
              (Inr (r\<lparr>status := error_status e\<rparr>),
               b(api_base_update RUNS (JStr (run_id r)) \<mapsto> save_obj (r\<lparr>status := error_status e\<rparr>)),
               r\<lparr>status := error_status e\<rparr>)) \<and>
         (local r \<longrightarrow>
            run reg b r =
              (Inl (Exc EntityError ''Use .export() for local execution.''), b,
               r\<lparr>status := error_status e\<rparr>))"
  using run_runtime_raises[OF assms, of b] save_obj_status[of "r\<lparr>status := error_status e\<rparr>"]
  by (simp add: state_def attr_def error_status_def)

theorem run_records_runtime_failure_witness:
  "run (boom_registry (Exc RuntimeError ''boom'')) sample_backend sample_run =
     (Inr (sample_run\<lparr>status := error_status (Exc RuntimeError ''boom'')\<rparr>),
      sample_backend(api_base_update RUNS (JStr ''r1'') \<mapsto>
        save_obj (sample_run\<lparr>status := error_status (Exc RuntimeError ''boom'')\<rparr>)),
      sample_run\<lparr>status := error_status (Exc RuntimeError ''boom'')\<rparr>) \<and>
   run (boom_registry (Exc RuntimeError ''boom'')) sample_backend (sample_run\<lparr>local := True\<rparr>) =
     (Inl (Exc EntityError ''Use .export() for local execution.''), sample_backend,
      sample_run\<lparr>local := True, status := error_status (Exc RuntimeError ''boom'')\<rparr>)"
proof -
  let ?e = "Exc RuntimeError ''boom''"
  have h1: "get_runtime (boom_registry ?e) sample_run = Inr (failing_runtime ?e)"
    by (simp add: eval_defs sample_run_def sample_task_def boom_registry_def)
  have h1': "get_runtime (boom_registry ?e) (sample_run\<lparr>local := True\<rparr>) = Inr (failing_runtime ?e)"
    by (simp add: eval_defs sample_run_def sample_task_def boom_registry_def)
  have h2: "runtime_run (failing_runtime ?e) d = Inl ?e" for d
    by (simp add: failing_runtime_def)
  have l: "\<not> local sample_run" "run_id sample_run = ''r1''" by (simp_all add: sample_run_def)
  from run_records_runtime_failure[OF h1 h2, of sample_backend]
       run_records_runtime_failure[OF h1' h2, of sample_backend] l
  show ?thesis by simp
qed

section \<open>Lemmas on the DBT runtime and on result lists\<close>

lemma get_timings_shape: "get_timings res = Inr t \<Longrightarrow> \<exists>v. t = [(''timing'', v)]"
  by (auto simp: get_timings_def split: prod.splits option.splits)

lemma validate_results_name:
  "validate_results rr output proj = Inr res \<Longrightarrow> node_name (node res) = output"
  by (auto simp: validate_results_def Let_def bind_Inr_iff split: option.splits list.splits if_splits)

lemma parse_results_shape:
  assumes "parse_results env rr output proj = Inr pr"
  shows "pr_name pr = output \<and> (\<exists>v. pr_timings pr = [(''timing'', v)])"
proof -
  from assms obtain res where v: "validate_results rr output proj = Inr res"
    and p: "(case bind (get_path res) (\<lambda>path.
             bind (get_raw_code env res) (\<lambda>rc.
             bind (get_compiled_code env res) (\<lambda>cc.
             bind (get_timings res) (\<lambda>timings.
               Inr \<lparr>pr_name = node_name (node res), pr_path = path, pr_raw_code = rc,
                    pr_compiled_code = cc, pr_timings = timings\<rparr>)))) of
          Inl e \<Rightarrow> Inl (Exc RuntimeError ''Something got wrong during results parsing.'')
        | Inr parsed \<Rightarrow> Inr parsed) = Inr pr"
    by (auto simp: parse_results_def bind_Inr_iff)
  from p obtain path rc cc timings where
    t: "get_timings res = Inr timings" and
    pr: "pr = \<lparr>pr_name = node_name (node res), pr_path = path, pr_raw_code = rc,
                    pr_compiled_code = cc, pr_timings = timings\<rparr>"
    by (auto simp: bind_Inr_iff split: sum.splits)
  from get_timings_shape[OF t] validate_results_name[OF v] pr show ?thesis by auto
qed

lemma create_dataitem_Inr:
  "create_dataitem env pr proj uuid = Inr di \<Longrightarrow>
   new_dataitem env \<lparr>nd_project = proj, nd_name = pr_name pr, nd_kind = DataitemKinds_DBT,
              nd_path = pr_path pr, nd_uuid = uuid, nd_raw_code = pr_raw_code pr,
              nd_compiled_code = pr_compiled_code pr\<rparr> = Inr di"
  by (auto simp: create_dataitem_def split: sum.splits)

lemma parse_outputs_Inr:
  "parse_outputs env o1 = Inr out \<Longrightarrow> \<exists>x xs. o1 = JList (x # xs) \<and> out = py_str env x"
  by (auto simp: parse_outputs_def split: json.splits list.splits)

lemma transform_result:
  assumes "transform env rn = Inr st"
  shows "\<exists>sp o0 x xs nd di tm.
           py_get rn ''spec'' = Inr sp \<and>
           py_get_default sp ''outputs'' (JDict []) = Inr o0 \<and>
           py_get_default o0 ''dataitems'' (JList []) = Inr (JList (x # xs)) \<and>
           new_dataitem env nd = Inr di \<and> nd_name nd = py_str env x \<and>
           nd_kind nd = DataitemKinds_DBT \<and> nd_uuid nd = get_uiid env \<and>
           st = JDict [(''dataitems'',
                        JList [JDict [(''key'', JStr (py_str env x)),
                                      (''kind'', JStr (di_kind di)),
                                      (''id'', JStr (''store://'' @ di_project di @ ''/dataitems/'' @
                                                     di_kind di @ ''/'' @ di_name di @ '':'' @
                                                     di_id di))]]),
                       (''timing'', tm),
                       (''state'', JStr State_COMPLETED)]"
proof -
  from assms obtain proj sp o0 o1 outp execution_results parsed_result dataitem where
    sp: "py_get rn ''spec'' = Inr sp"
    and o0: "py_get_default sp ''outputs'' (JDict []) = Inr o0"
    and o1: "py_get_default o0 ''dataitems'' (JList []) = Inr o1"
    and po: "parse_outputs env o1 = Inr outp"
    and pr: "parse_results env execution_results outp proj = Inr parsed_result"
    and cd: "create_dataitem env parsed_result proj (get_uiid env) = Inr dataitem"
    and st: "st = JDict (dict_merge (dict_merge (get_dataitem_info outp dataitem)
                                          (pr_timings parsed_result))
                              [(''state'', JStr State_COMPLETED)])"
    unfolding transform_def bind_Inr_iff by blast
  from parse_outputs_Inr[OF po] obtain x xs where x: "o1 = JList (x # xs)" "outp = py_str env x"
    by blast
  from parse_results_shape[OF pr] obtain tm where
    nm: "pr_name parsed_result = outp" and tm: "pr_timings parsed_result = [(''timing'', tm)]"
    by blast
  have "st = JDict [(''dataitems'',
                        JList [JDict [(''key'', JStr (py_str env x)),
                                      (''kind'', JStr (di_kind dataitem)),
                                      (''id'', JStr (''store://'' @ di_project dataitem @ ''/dataitems/'' @
                                                     di_kind dataitem @ ''/'' @ di_name dataitem @ '':'' @
                                                     di_id dataitem))]]),
                       (''timing'', tm),
                       (''state'', JStr State_COMPLETED)]"
    using st tm x(2) by (simp add: get_dataitem_info_def)
  with sp o0 o1 x create_dataitem_Inr[OF cd] nm show ?thesis
    by (intro exI[of _ sp] exI[of _ o0] exI[of _ x] exI[of _ xs]
          exI[of _ "\<lparr>nd_project = proj, nd_name = pr_name parsed_result, nd_kind = DataitemKinds_DBT,
              nd_path = pr_path parsed_result, nd_uuid = get_uiid env,
              nd_raw_code = pr_raw_code parsed_result,
              nd_compiled_code = pr_compiled_code parsed_result\<rparr>"]
          exI[of _ dataitem] exI[of _ tm]) simp
qed

lemma DBT_run_Inr: "DBT_run env rn = Inr st \<Longrightarrow> transform env rn = Inr st"
  by (auto simp: DBT_run_def bind_Inr_iff split: if_splits)

lemma DBT_run_state:
  assumes "DBT_run env rn = Inr st"
  shows "\<exists>d. st = JDict d \<and> attr d ''state'' = JStr State_COMPLETED"
  using transform_result[OF DBT_run_Inr[OF assms]] by (auto simp: attr_def)

lemma DBT_run_not_pending:
  "state r \<noteq> JStr State_PENDING \<Longrightarrow>
   DBT_run env (to_dict r) = Inl (Exc EntityError ''Run is not in pending state. Build it again.'')"
  by (simp add: DBT_run_def state_def attr_def)

lemma DBT_run_action:
  assumes "py_get rn ''status'' = Inr st" and "py_get st ''state'' = Inr (JStr State_PENDING)"
    and "py_get rn ''spec'' = Inr sp"
    and "py_get sp ''task'' = Inr (JStr (k1 @ ''+'' @ k2 @ '':'' @ rest))"
    and "CHR ''+'' \<notin> set k1" and "CHR '':'' \<notin> set k1"
    and "CHR ''+'' \<notin> set k2" and "CHR '':'' \<notin> set k2"
  shows "DBT_run env rn =
           (if k2 = TaskKinds_TRANSFORM then transform env rn
            else Inl (Exc EntityError (''Task '' @ k2 @ '' not allowed for DBT runtime'')))"
proof -
  have "CHR '':'' \<notin> set (k1 @ ''+'' @ k2)" using assms(6,8) by simp
  from split_py_first[OF this, of "[]" rest]
  have s1: "split_py '':'' ((k1 @ ''+'' @ k2) @ '':'' @ rest) = (k1 @ ''+'' @ k2) # split_py '':'' rest"
    by simp
  have s2: "split_py ''+'' (k1 @ ''+'' @ k2) = [k1, k2]"
    using split_py_first[OF assms(5), of "[]" k2] split_py_char_absent[OF assms(7)] by simp
  show ?thesis
    using assms(1-4) s1 s2 by (simp add: DBT_run_def py_split_def)
qed

lemmas dbt_defs = transform_def parse_inputs_def parse_outputs_def dbt_setup_def
  generate_dbt_project_yml_def generate_outputs_conf_def generate_dbt_profile_yml_def
  execute_def parse_results_def validate_results_def get_path_def get_raw_code_def
  get_compiled_code_def get_timings_def timing_step_def create_dataitem_def
  get_dataitem_info_def str_replace_def py_str_def sample_env_def sample_result_def
  DataitemKinds_DBT_def State_COMPLETED_def Let_def replace_char_def
  write_file_def path_div_def path_str_def path_name_def Path_of_def path_root_of_def
  path_parts_of_def root_dir_def model_dir_def

lemma sample_transform: "transform sample_env sample_run_dict = Inr sample_status"
  by (simp add: dbt_defs sample_run_dict_def sample_status_def sample_task_def)

lemma run_runtime_returns:
  assumes "get_runtime reg r = Inr rt" and "runtime_run rt (to_dict r) = Inr (JDict d)"
  shows "(\<not> local r \<longrightarrow>
            run reg b r =
              (Inr (r\<lparr>status := d\<rparr>),
               b(api_base_update RUNS (JStr (run_id r)) \<mapsto> save_obj (r\<lparr>status := d\<rparr>)),
               r\<lparr>status := d\<rparr>)) \<and>
         (local r \<longrightarrow>
            run reg b r =
              (Inl (Exc EntityError ''Use .export() for local execution.''), b, r\<lparr>status := d\<rparr>))"
  using assms save_update[of "r\<lparr>status := d\<rparr>" b] save_local[of "r\<lparr>status := d\<rparr>" b]
  by (simp add: run_def)

lemma first_id_found:
  assumes "\<forall>x\<in>set pre. \<exists>v. py_get x ''key'' = Inr v \<and> v \<noteq> JStr k"
    and "py_get e ''key'' = Inr (JStr k)"
  shows "first_id (pre @ e # post) k = py_get e ''id''"
  using assms by (induction pre) auto

lemma first_id_none:
  assumes "\<forall>x\<in>set es. \<exists>v. py_get x ''key'' = Inr v \<and> v \<noteq> JStr k"
  shows "first_id es k = Inr JNull"
  using assms by (induction es) auto

lemma resolve_all_map:
  assumes "\<forall>x\<in>set es. \<exists>i. py_get x ''id'' = Inr i \<and> lookup i = Inr (g x)"
  shows "resolve_all lookup es = Inr (map g es)"
  using assms by (induction es) auto

lemma get_outputs_no_result:
  assumes "refresh b r = Inr resp" and "py_get_default resp ''status'' (JDict []) = Inr st"
    and "py_get st field = Inr JNull"
  shows "get_outputs field noun lookup b r key =
           Inl (Exc EntityError ''Run has no result (maybe try when it finishes).'')"
  using assms by (simp add: get_outputs_def)

lemma get_outputs_by_key:
  assumes "refresh b r = Inr resp" and "py_get_default resp ''status'' (JDict []) = Inr st"
    and "py_get st field = Inr (JList (pre @ e # post))"
    and "\<forall>x\<in>set pre. \<exists>v. py_get x ''key'' = Inr v \<and> v \<noteq> JStr k"
    and "py_get e ''key'' = Inr (JStr k)" and "py_get e ''id'' = Inr i" and "i \<noteq> JNull"
  shows "get_outputs field noun lookup b r (Some k) = bind (lookup i) (\<lambda>x. Inr (One x))"
  using assms(1-3,6,7) first_id_found[OF assms(4,5), of post]
  by (simp add: get_outputs_def py_iter_def)

lemma get_outputs_first_without_id:
  assumes "refresh b r = Inr resp" and "py_get_default resp ''status'' (JDict []) = Inr st"
    and "py_get st field = Inr (JList (pre @ e # post))"
    and "\<forall>x\<in>set pre. \<exists>v. py_get x ''key'' = Inr v \<and> v \<noteq> JStr k"
    and "py_get e ''key'' = Inr (JStr k)" and "py_get e ''id'' = Inr JNull"
  shows "get_outputs field noun lookup b r (Some k) =
           Inl (Exc EntityError (''No '' @ noun @ '' found with key '' @ sq @ k @ sq @ ''.''))"
  using assms(1-3,6) first_id_found[OF assms(4,5), of post]
  by (simp add: get_outputs_def py_iter_def)

lemma get_outputs_not_found:
  assumes "refresh b r = Inr resp" and "py_get_default resp ''status'' (JDict []) = Inr st"
    and "py_get st field = Inr (JList es)"
    and "\<forall>x\<in>set es. \<exists>v. py_get x ''key'' = Inr v \<and> v \<noteq> JStr k"
  shows "get_outputs field noun lookup b r (Some k) =
           Inl (Exc EntityError (''No '' @ noun @ '' found with key '' @ sq @ k @ sq @ ''.''))"
  using assms(1-3) first_id_none[OF assms(4)]
  by (simp add: get_outputs_def py_iter_def)

lemma get_outputs_all:
  assumes "refresh b r = Inr resp" and "py_get_default resp ''status'' (JDict []) = Inr st"
    and "py_get st field = Inr (JList es)"
    and "\<forall>x\<in>set es. \<exists>i. py_get x ''id'' = Inr i \<and> lookup i = Inr (g x)"
  shows "get_outputs field noun lookup b r None = Inr (Many (map g es))"
  using assms(1-3) resolve_all_map[OF assms(4)]
  by (simp add: get_outputs_def py_iter_def)

section \<open>The transform task and the dispatch of the DBT runtime\<close>

text \<open>
  C9. When \<open>transform\<close> returns, the first declared output \<open>x\<close> names the result:
  the status returned has state \<open>COMPLETED\<close> and a list \<open>dataitems\<close> of one entry,
  whose key is the output name and whose id is
  \<open>store://<project>/dataitems/<kind>/<name>:<id>\<close> made of the fields of the dataitem
  that \<open>new_dataitem\<close> created for this output (kind dbt, the fresh identifier);
  besides these the status holds the timings.
\<close>

theorem transform_reports_dataitem:
  assumes "transform env rn = Inr st"
  shows "\<exists>sp o0 x xs nd di tm.
           py_get rn ''spec'' = Inr sp \<and>
           py_get_default sp ''outputs'' (JDict []) = Inr o0 \<and>
           py_get_default o0 ''dataitems'' (JList []) = Inr (JList (x # xs)) \<and>
           new_dataitem env nd = Inr di \<and> nd_name nd = py_str env x \<and>
           nd_kind nd = DataitemKinds_DBT \<and> nd_uuid nd = get_uiid env \<and>
           st = JDict [(''dataitems'',
                        JList [JDict [(''key'', JStr (py_str env x)),
                                      (''kind'', JStr (di_kind di)),
                                      (''id'', JStr (''store://'' @ di_project di @ ''/dataitems/'' @
                                                     di_kind di @ ''/'' @ di_name di @ '':'' @
                                                     di_id di))]]),
                       (''timing'', tm),
                       (''state'', JStr State_COMPLETED)]"
  using assms by (rule transform_result)

theorem transform_reports_dataitem_witness:
  "transform sample_env sample_run_dict = Inr sample_status \<and>
   (\<exists>sp o0 x xs nd di tm.
      py_get sample_run_dict ''spec'' = Inr sp \<and>
      py_get_default sp ''outputs'' (JDict []) = Inr o0 \<and>
      py_get_default o0 ''dataitems'' (JList []) = Inr (JList (x # xs)) \<and>
      new_dataitem sample_env nd = Inr di \<and> nd_name nd = py_str sample_env x \<and>
      nd_kind nd = DataitemKinds_DBT \<and> nd_uuid nd = get_uiid sample_env \<and>
      sample_status =
        JDict [(''dataitems'',
                JList [JDict [(''key'', JStr (py_str sample_env x)),
                              (''kind'', JStr (di_kind di)),
                              (''id'', JStr (''store://'' @ di_project di @ ''/dataitems/'' @
                                             di_kind di @ ''/'' @ di_name di @ '':'' @ di_id di))]]),
               (''timing'', tm),
               (''state'', JStr State_COMPLETED)])"
  by (rule conjI[OF sample_transform transform_reports_dataitem[OF sample_transform]])

text \<open>
  C7 (as stated, refuted). The state is checked before the task kind: a run dictionary
  that is not pending fails with the error of the state check, whether its kind is one
  the runtime does not support or is \<open>transform\<close>, which the handler alone would
  have executed.
\<close>

theorem dbt_run_state_check_first:
  "''validate'' \<notin> set get_allowed_tasks \<and>
   DBT_run sample_env
     (JDict [(''spec'', JDict [(''task'', JStr ''dbt+validate://ns/myfn:f1'')]),
             (''status'', JDict [(''state'', JStr State_CREATED)])]) =
     Inl (Exc EntityError ''Run is not in pending state. Build it again.'') \<and>
   ''transform'' \<in> set get_allowed_tasks \<and>
   DBT_run sample_env sample_created_dict =
     Inl (Exc EntityError ''Run is not in pending state. Build it again.'') \<and>
   transform sample_env sample_created_dict = Inr sample_status"
proof -
  have "transform sample_env sample_created_dict = Inr sample_status"
    by (simp add: dbt_defs sample_created_dict_def sample_status_def sample_task_def)
  then show ?thesis
    by (simp add: DBT_run_def get_allowed_tasks_def tasks_def TaskKinds_TRANSFORM_def
          State_CREATED_def State_PENDING_def sample_created_dict_def)
qed

text \<open>
  C7 (amended). For a run dictionary in state \<open>PENDING\<close> whose task string begins
  \<open>k1+k2:\<close> (the kinds free of \<open>+\<close> and \<open>:\<close>), \<open>RuntimeDBT.run\<close> fails with
  the \<open>EntityError\<close> "Task k2 not allowed for DBT runtime" when \<open>k2\<close> is not among the
  allowed tasks, and is the transform handler when it is, that is, when \<open>k2\<close> is
  \<open>transform\<close>.
\<close>

theorem dbt_run_dispatch:
  assumes "py_get rn ''status'' = Inr st" and "py_get st ''state'' = Inr (JStr State_PENDING)"
    and "py_get rn ''spec'' = Inr sp"
    and "py_get sp ''task'' = Inr (JStr (k1 @ ''+'' @ k2 @ '':'' @ rest))"
    and "CHR ''+'' \<notin> set k1" and "CHR '':'' \<notin> set k1"
    and "CHR ''+'' \<notin> set k2" and "CHR '':'' \<notin> set k2"
  shows "(k2 \<notin> set get_allowed_tasks \<longrightarrow>
            DBT_run env rn = Inl (Exc EntityError (''Task '' @ k2 @ '' not allowed for DBT runtime''))) \<and>
         (k2 \<in> set get_allowed_tasks \<longrightarrow> k2 = TaskKinds_TRANSFORM \<and> DBT_run env rn = transform env rn)"
  using DBT_run_action[OF assms, of env] by (simp add: get_allowed_tasks_def tasks_def)

theorem dbt_run_dispatch_witness:
  "''validate'' \<notin> set get_allowed_tasks \<and>
   DBT_run sample_env sample_validate_dict =
     Inl (Exc EntityError (''Task '' @ ''validate'' @ '' not allowed for DBT runtime'')) \<and>
   ''transform'' \<in> set get_allowed_tasks \<and>
   DBT_run sample_env sample_run_dict = transform sample_env sample_run_dict"
proof -
  have a: "''validate'' \<notin> set get_allowed_tasks" "''transform'' \<in> set get_allowed_tasks"
    by (simp_all add: get_allowed_tasks_def tasks_def TaskKinds_TRANSFORM_def)
  have h1: "py_get sample_validate_dict ''status'' = Inr (JDict [(''state'', JStr State_PENDING)])"
    by (simp add: sample_validate_dict_def)
  have h2: "py_get (JDict [(''state'', JStr State_PENDING)]) ''state'' = Inr (JStr State_PENDING)"
    by simp
  have h3: "py_get sample_validate_dict ''spec'' =
              Inr (JDict [(''task'', JStr (''dbt'' @ ''+'' @ ''validate'' @ '':'' @ ''//ns/myfn:f1''))])"
    by (simp add: sample_validate_dict_def)
  have h4: "py_get (JDict [(''task'', JStr (''dbt'' @ ''+'' @ ''validate'' @ '':'' @ ''//ns/myfn:f1''))]) ''task'' =
              Inr (JStr (''dbt'' @ ''+'' @ ''validate'' @ '':'' @ ''//ns/myfn:f1''))"
    by simp
  have g1: "py_get sample_run_dict ''status'' = Inr (JDict [(''state'', JStr State_PENDING)])"
    by (simp add: sample_run_dict_def)
  have g3: "py_get sample_run_dict ''spec'' =
              Inr (JDict [(''task'', JStr sample_task), (''sql'', JStr ''c2VsZWN0''),
                              (''inputs'', JDict [(''dataitems'', JList [JStr ''t1''])]),
                              (''outputs'', JDict [(''dataitems'', JList [JStr ''t2''])])])"
    by (simp add: sample_run_dict_def)
  have g4: "py_get (JDict [(''task'', JStr sample_task), (''sql'', JStr ''c2VsZWN0''),
                              (''inputs'', JDict [(''dataitems'', JList [JStr ''t1''])]),
                              (''outputs'', JDict [(''dataitems'', JList [JStr ''t2''])])]) ''task'' =
              Inr (JStr (''dbt'' @ ''+'' @ ''transform'' @ '':'' @ ''//ns/myfn:f1''))"
    by (simp add: sample_task_def)
  from dbt_run_dispatch[OF h1 h2 h3 h4, of sample_env] a
  have r1: "DBT_run sample_env sample_validate_dict =
     Inl (Exc EntityError (''Task '' @ ''validate'' @ '' not allowed for DBT runtime''))"
    by simp
  from dbt_run_dispatch[OF g1 h2 g3 g4, of sample_env] a
  have r2: "DBT_run sample_env sample_run_dict = transform sample_env sample_run_dict"
    by simp
  from a r1 r2 show ?thesis by blast
qed

text \<open>
  C2 (as stated, refuted). Executing a Run that is not pending does not raise: the
  error of the state check is raised inside the boundary and recorded as the status.
  And when the task string cannot be parsed the call raises and leaves a pending Run
  pending.
\<close>

theorem run_state_error_not_raised:
  "fst (run sample_registry sample_backend (sample_run\<lparr>status := [(''state'', JStr State_CREATED)]\<rparr>)) =
     Inr (sample_run\<lparr>status := error_status
                            (Exc EntityError ''Run is not in pending state. Build it again.'')\<rparr>) \<and>
   fst (run sample_registry sample_backend
          (sample_run\<lparr>spec := [(''task'', JStr ''transform'')],
                      status := [(''state'', JStr State_PENDING)]\<rparr>)) =
     Inl (Exc ValueError ''not enough values to unpack (expected 2, got 1)'') \<and>
   state (snd (snd (run sample_registry sample_backend
          (sample_run\<lparr>spec := [(''task'', JStr ''transform'')],
                      status := [(''state'', JStr State_PENDING)]\<rparr>)))) = JStr State_PENDING"
  by (simp add: run_def eval_defs sample_defs DBT_run_def state_def error_status_def
        State_CREATED_def State_PENDING_def)

text \<open>
  C2 (amended). When the runtime of the Run is resolved to the DBT runtime: if the
  state is not \<open>PENDING\<close>, \<open>run\<close> sets the status to state \<open>ERROR\<close> with the message
  "Run is not in pending state. Build it again." and, unless the Run is local, returns
  the Run instead of raising; and whatever the call does, the state after it is
  \<open>COMPLETED\<close> or \<open>ERROR\<close>.
\<close>

theorem run_dbt_ends_terminal:
  assumes "get_runtime reg r = Inr (RuntimeDBT env)"
  shows "(state r \<noteq> JStr State_PENDING \<longrightarrow>
            (\<exists>out b'. run reg b r =
               (out, b', r\<lparr>status := error_status
                            (Exc EntityError ''Run is not in pending state. Build it again.'')\<rparr>) \<and>
               (local r \<or>
                out = Inr (r\<lparr>status := error_status
                            (Exc EntityError ''Run is not in pending state. Build it again.'')\<rparr>)))) \<and>
         (\<forall>out b' r'. run reg b r = (out, b', r') \<longrightarrow>
            state r' = JStr State_COMPLETED \<or> state r' = JStr State_ERROR)"
proof (intro conjI impI allI)
  have rr: "runtime_run (RuntimeDBT env) d = DBT_run env d" for d
    by (simp add: RuntimeDBT_def)
  let ?e = "Exc EntityError ''Run is not in pending state. Build it again.''"
  assume "state r \<noteq> JStr State_PENDING"
  then have "runtime_run (RuntimeDBT env) (to_dict r) = Inl ?e"
    by (simp add: rr DBT_run_not_pending)
  from run_runtime_raises[OF assms this, of b]
  show "\<exists>out b'. run reg b r = (out, b', r\<lparr>status := error_status ?e\<rparr>) \<and>
          (local r \<or> out = Inr (r\<lparr>status := error_status ?e\<rparr>))"
    by (cases "local r") auto
next
  fix out b' r'
  assume run: "run reg b r = (out, b', r')"
  have rr: "runtime_run (RuntimeDBT env) d = DBT_run env d" for d
    by (simp add: RuntimeDBT_def)
  show "state r' = JStr State_COMPLETED \<or> state r' = JStr State_ERROR"
  proof (cases "DBT_run env (to_dict r)")
    case (Inl e)
    then have "runtime_run (RuntimeDBT env) (to_dict r) = Inl e" by (simp add: rr)
    from run_runtime_raises[OF assms this, of b] run
    have "r' = r\<lparr>status := error_status e\<rparr>" by (cases "local r") auto
    then show ?thesis by (simp add: state_def attr_def error_status_def)
  next
    case (Inr st)
    from DBT_run_state[OF Inr] obtain d where d: "st = JDict d" "attr d ''state'' = JStr State_COMPLETED"
      by blast
    with Inr have "runtime_run (RuntimeDBT env) (to_dict r) = Inr (JDict d)" by (simp add: rr)
    from run_runtime_returns[OF assms this, of b] run
    have "r' = r\<lparr>status := d\<rparr>" by (cases "local r") auto
    with d show ?thesis by (simp add: state_def)
  qed
qed

theorem run_dbt_ends_terminal_witness:
  "state (sample_run\<lparr>status := [(''state'', JStr State_CREATED)]\<rparr>) \<noteq> JStr State_PENDING \<and>
   run sample_registry sample_backend (sample_run\<lparr>status := [(''state'', JStr State_CREATED)]\<rparr>) =
     (Inr (sample_run\<lparr>status := error_status
                            (Exc EntityError ''Run is not in pending state. Build it again.'')\<rparr>),
      fst (snd (run sample_registry sample_backend
                  (sample_run\<lparr>status := [(''state'', JStr State_CREATED)]\<rparr>))),
      sample_run\<lparr>status := error_status
                            (Exc EntityError ''Run is not in pending state. Build it again.'')\<rparr>) \<and>
   state (snd (snd (run sample_registry sample_backend
                      (sample_run\<lparr>status := [(''state'', JStr State_CREATED)]\<rparr>)))) = JStr State_ERROR"
proof -
  let ?r = "sample_run\<lparr>status := [(''state'', JStr State_CREATED)]\<rparr>"
  have h: "get_runtime sample_registry ?r = Inr (RuntimeDBT sample_env)"
    by (simp add: eval_defs sample_run_def sample_registry_def sample_task_def)
  have s: "state ?r \<noteq> JStr State_PENDING"
    by (simp add: state_def attr_def State_CREATED_def State_PENDING_def)
  have l: "\<not> local ?r" by (simp add: sample_run_def)
  from run_dbt_ends_terminal[OF h, of sample_backend] s l
  show ?thesis
    by (auto simp: state_def attr_def error_status_def State_ERROR_def State_COMPLETED_def)
qed

section \<open>Retrieving the results of a Run\<close>

text \<open>
  C8 (as stated, refuted). The result list of the refreshed Run has an entry with the
  key \<open>out\<close> and the id \<open>a1\<close>, but an entry with the same key and no id stands
  before it: \<open>get_artifacts\<close> with the key \<open>out\<close> fails as if no entry had the key.
\<close>

theorem get_artifacts_first_entry_without_id:
  "py_get (sample_shadowed_entries ! 1) ''key'' = Inr (JStr ''out'') \<and>
   py_get (sample_shadowed_entries ! 1) ''id'' = Inr (JStr ''a1'') \<and>
   refresh sample_shadowed_backend sample_run =
     Inr (JDict [(''id'', JStr ''r1''),
                 (''status'', JDict [(''state'', JStr State_COMPLETED),
                                     (''artifacts'', JList sample_shadowed_entries)])]) \<and>
   Run_get_artifacts Inr sample_shadowed_backend sample_run (Some ''out'') =
     (Inl (Exc EntityError (''No artifact found with key '' @ sq @ ''out'' @ sq @ ''.''))
        :: exn + json found)"
  by (simp add: Run_get_artifacts_def get_outputs_def py_iter_def refresh_def read_object_def
        api_base_read_def sample_shadowed_backend_def sample_shadowed_entries_def sample_run_def)

text \<open>
  C8 (amended). \<open>get_artifacts\<close> and \<open>get_dataitem\<close> are one procedure on the
  status field \<open>artifacts\<close> or \<open>dataitems\<close> of the refreshed Run. When the field
  is absent or null the call fails with the \<open>EntityError\<close> "Run has no result"; when a
  key is given and the first entry with that key carries an id, the call is the lookup of
  that id; when a key is given and the first entry with that key carries no id, or no
  entry has the key, the call fails with the \<open>EntityError\<close> "No ... found with key";
  when no key is given, the call returns the entities looked up for all entries, in
  order.
\<close>

theorem get_outputs_cases:
  assumes "refresh b r = Inr resp" and "py_get_default resp ''status'' (JDict []) = Inr st"
  shows "Run_get_artifacts lookup = get_outputs ''artifacts'' ''artifact'' lookup \<and>
         Run_get_dataitem lookup = get_outputs ''dataitems'' ''dataitem'' lookup \<and>
         (py_get st field = Inr JNull \<longrightarrow>
            get_outputs field noun lookup b r key =
              Inl (Exc EntityError ''Run has no result (maybe try when it finishes).'')) \<and>
         (py_get st field = Inr (JList (pre @ e # post)) \<and>
          (\<forall>x\<in>set pre. \<exists>v. py_get x ''key'' = Inr v \<and> v \<noteq> JStr k) \<and>
          py_get e ''key'' = Inr (JStr k) \<and> py_get e ''id'' = Inr i \<and> i \<noteq> JNull \<longrightarrow>
            get_outputs field noun lookup b r (Some k) = bind (lookup i) (\<lambda>x. Inr (One x))) \<and>
         (py_get st field = Inr (JList (pre @ e # post)) \<and>
          (\<forall>x\<in>set pre. \<exists>v. py_get x ''key'' = Inr v \<and> v \<noteq> JStr k) \<and>
          py_get e ''key'' = Inr (JStr k) \<and> py_get e ''id'' = Inr JNull \<longrightarrow>
            get_outputs field noun lookup b r (Some k) =
              Inl (Exc EntityError (''No '' @ noun @ '' found with key '' @ sq @ k @ sq @ ''.''))) \<and>
         (py_get st field = Inr (JList es) \<and>
          (\<forall>x\<in>set es. \<exists>v. py_get x ''key'' = Inr v \<and> v \<noteq> JStr k) \<longrightarrow>
            get_outputs field noun lookup b r (Some k) =
              Inl (Exc EntityError (''No '' @ noun @ '' found with key '' @ sq @ k @ sq @ ''.''))) \<and>
         (py_get st field = Inr (JList es) \<and>
          (\<forall>x\<in>set es. \<exists>i. py_get x ''id'' = Inr i \<and> lookup i = Inr (g x)) \<longrightarrow>
            get_outputs field noun lookup b r None = Inr (Many (map g es)))"
proof (intro conjI impI)
  show "Run_get_artifacts lookup = get_outputs ''artifacts'' ''artifact'' lookup"
    by (simp add: Run_get_artifacts_def)
  show "Run_get_dataitem lookup = get_outputs ''dataitems'' ''dataitem'' lookup"
    by (simp add: Run_get_dataitem_def)
qed (use assms in \<open>simp_all add: get_outputs_no_result get_outputs_by_key
                     get_outputs_first_without_id get_outputs_not_found get_outputs_all\<close>)

theorem get_outputs_cases_witness:
  "Run_get_dataitem Inr sample_results_backend sample_run None =
     (Inl (Exc EntityError ''Run has no result (maybe try when it finishes).'') :: exn + json found) \<and>
   Run_get_artifacts Inr sample_results_backend sample_run (Some ''out'') = Inr (One (JStr ''a1'')) \<and>
   Run_get_artifacts Inr sample_shadowed_backend sample_run (Some ''out'') =
     (Inl (Exc EntityError (''No artifact found with key '' @ sq @ ''out'' @ sq @ ''.''))
        :: exn + json found) \<and>
   Run_get_artifacts Inr sample_results_backend sample_run (Some ''missing'') =
     (Inl (Exc EntityError (''No artifact found with key '' @ sq @ ''missing'' @ sq @ ''.''))
        :: exn + json found) \<and>
   Run_get_artifacts Inr sample_results_backend sample_run None =
     Inr (Many [JStr ''a0'', JStr ''a1''])"
proof -
  let ?resp = "JDict [(''id'', JStr ''r1''),
               (''status'', JDict [(''state'', JStr State_COMPLETED),
                                   (''artifacts'', JList sample_entries)])]"
  let ?st = "JDict [(''state'', JStr State_COMPLETED), (''artifacts'', JList sample_entries)]"
  let ?log = "JDict [(''key'', JStr ''log''), (''id'', JStr ''a0'')]"
  let ?out = "JDict [(''key'', JStr ''out''), (''id'', JStr ''a1'')]"
  let ?resp' = "JDict [(''id'', JStr ''r1''),
               (''status'', JDict [(''state'', JStr State_COMPLETED),
                                   (''artifacts'', JList sample_shadowed_entries)])]"
  let ?st' = "JDict [(''state'', JStr State_COMPLETED), (''artifacts'', JList sample_shadowed_entries)]"
  let ?bare = "JDict [(''key'', JStr ''out'')]"
  have h1: "refresh sample_results_backend sample_run = Inr ?resp"
    by (simp add: refresh_def read_object_def api_base_read_def sample_results_backend_def
          sample_run_def)
  have h2: "py_get_default ?resp ''status'' (JDict []) = Inr ?st" by simp
  have h1': "refresh sample_shadowed_backend sample_run = Inr ?resp'"
    by (simp add: refresh_def read_object_def api_base_read_def sample_shadowed_backend_def
          sample_run_def)
  have h2': "py_get_default ?resp' ''status'' (JDict []) = Inr ?st'" by simp
  have d: "py_get ?st ''dataitems'' = Inr JNull" by simp
  have a: "py_get ?st ''artifacts'' = Inr (JList ([?log] @ ?out # []))"
    by (simp add: sample_entries_def)
  have a': "py_get ?st ''artifacts'' = Inr (JList sample_entries)" by simp
  have sh: "py_get ?st' ''artifacts'' = Inr (JList ([] @ ?bare # [?out]))"
    by (simp add: sample_shadowed_entries_def)
  have pre: "\<forall>x\<in>set [?log]. \<exists>v. py_get x ''key'' = Inr v \<and> v \<noteq> JStr ''out''" by simp
  have pre': "\<forall>x\<in>set []. \<exists>v. py_get x ''key'' = Inr v \<and> v \<noteq> JStr ''out''" by simp
  have e: "py_get ?out ''key'' = Inr (JStr ''out'')" "py_get ?out ''id'' = Inr (JStr ''a1'')"
    "JStr ''a1'' \<noteq> JNull" by simp_all
  have e': "py_get ?bare ''key'' = Inr (JStr ''out'')" "py_get ?bare ''id'' = Inr JNull"
    by simp_all
  have nf: "\<forall>x\<in>set sample_entries. \<exists>v. py_get x ''key'' = Inr v \<and> v \<noteq> JStr ''missing''"
    by (simp add: sample_entries_def)
  have al: "\<forall>x\<in>set sample_entries. \<exists>i. py_get x ''id'' = Inr i \<and> Inr i = (Inr (entry_id x) :: exn + json)"
    by (simp add: sample_entries_def entry_id_def)
  have m: "map entry_id sample_entries = [JStr ''a0'', JStr ''a1'']"
    by (simp add: sample_entries_def entry_id_def)
  note c1 = get_outputs_cases[OF h1 h2, where lookup = Inr and field = "''dataitems''"
               and noun = "''dataitem''" and key = None]
  note c2 = get_outputs_cases[OF h1 h2, where lookup = Inr and field = "''artifacts''"
               and noun = "''artifact''" and pre = "[?log]" and e = ?out and post = "[]"
               and k = "''out''" and i = "JStr ''a1''"]
  note c3 = get_outputs_cases[OF h1 h2, where lookup = Inr and field = "''artifacts''"
               and noun = "''artifact''" and k = "''missing''" and es = sample_entries]
  note c4 = get_outputs_cases[OF h1 h2, where lookup = Inr and field = "''artifacts''"
               and noun = "''artifact''" and es = sample_entries and g = entry_id]
  note c5 = get_outputs_cases[OF h1' h2', where lookup = Inr and field = "''artifacts''"
               and noun = "''artifact''" and pre = "[]" and e = ?bare and post = "[?out]"
               and k = "''out''"]
  have r1: "Run_get_dataitem Inr sample_results_backend sample_run None =
     (Inl (Exc EntityError ''Run has no result (maybe try when it finishes).'') :: exn + json found)"
    using c1 d by simp
  have r2: "Run_get_artifacts Inr sample_results_backend sample_run (Some ''out'') = Inr (One (JStr ''a1''))"
    using c2 a pre e by simp
  have r3: "Run_get_artifacts Inr sample_results_backend sample_run (Some ''missing'') =
     (Inl (Exc EntityError (''No artifact found with key '' @ sq @ ''missing'' @ sq @ ''.''))
        :: exn + json found)"
    using c3 a' nf by simp
  have r4: "Run_get_artifacts Inr sample_results_backend sample_run None =
     Inr (Many [JStr ''a0'', JStr ''a1''])"
    using c4 a' al m by simp
  have r5: "Run_get_artifacts Inr sample_shadowed_backend sample_run (Some ''out'') =
     (Inl (Exc EntityError (''No artifact found with key '' @ sq @ ''out'' @ sq @ ''.''))
        :: exn + json found)"
    using c5 sh pre' e' by simp
  from r1 r2 r3 r4 r5 show ?thesis by blast
qed

end
